theory Spec2Isabelle
  imports Complex_Main
begin

section \<open>Data model of the target pool (PlayerTargets, red/blue variant)\<close>

text \<open>
  The embedding follows the class \<open>PlayerTargets\<close> with the proximity resolver
  (\<open>checkHit(position, shotColor)\<close>).

  A JavaScript \<open>number\<close> is a binary64 value. The model keeps the value of a finite number
  as a real and rounds after every arithmetic operation of the source, with the rounding
  function \<open>fl\<close> of the runtime: \<open>a + b\<close> in the source is \<open>fl (a + b)\<close> here, and a
  decimal literal that is not a binary fraction, such as \<open>0.9\<close>, is \<open>fl (9 / 10)\<close>.
  Comparisons and \<open>Math.max\<close> are exact on the values. The rounding is a parameter, and so
  are \<open>Math.sqrt\<close>, \<open>Math.sin\<close> and \<open>Math.cos\<close>, which the engine provides.
  Nothing is assumed of the four functions, so what is proved holds for the engine's
  round-to-nearest and its library functions as for any others. NaN and the infinities are
  not values of the model. The player cursor and the object identities are natural numbers.

  The rendering library is not part of the repository. Of a \<open>THREE.Sprite\<close> the model
  keeps what the class reads or writes: its position, its scale, the opacity and the disposed
  flag of its material, and the colour table entry its canvas was drawn with. Every sprite
  carries the identity it was allocated with; the render graph \<open>game.scene.scene\<close> is the
  set of identities of its children (\<open>add\<close> inserts, \<open>remove\<close> deletes).
  \<open>Math.random()\<close> reads the next element of a stream that is part of the state; the
  library draws from the same stream when it gives a new object its UUID.
  \<open>Vector3.add\<close>, \<open>multiplyScalar\<close> and \<open>distanceTo\<close> compute what the library
  computes: the componentwise sum, the scaling, and \<open>Math.sqrt\<close> of
  \<open>dx * dx + dy * dy + dz * dz\<close> over the coordinate differences, each operation rounded.

  The two earlier variants of the class (with the ray resolver) have the same \<open>start\<close>, the
  same spawn guard and the same loop over the targets in \<open>update\<close>; they differ in the
  constants of \<open>spawnTarget\<close> and in the spawn interval (0.3 instead of 0.5). The interval
  is a field of the pool here, and the theorems on \<open>update\<close> hold for every value of it.
\<close>

record Runtime =
  fl :: "real \<Rightarrow> real"
  Math_sqrt :: "real \<Rightarrow> real"
  Math_sin :: "real \<Rightarrow> real"
  Math_cos :: "real \<Rightarrow> real"

datatype Vector3 = Vector3 (vx: real) (vy: real) (vz: real)

definition add :: "Runtime \<Rightarrow> Vector3 \<Rightarrow> Vector3 \<Rightarrow> Vector3" where
  "add R a b = Vector3 (fl R (vx a + vx b)) (fl R (vy a + vy b)) (fl R (vz a + vz b))"

definition multiplyScalar :: "Runtime \<Rightarrow> Vector3 \<Rightarrow> real \<Rightarrow> Vector3" where
  "multiplyScalar R a k = Vector3 (fl R (vx a * k)) (fl R (vy a * k)) (fl R (vz a * k))"

definition distanceToSquared :: "Runtime \<Rightarrow> Vector3 \<Rightarrow> Vector3 \<Rightarrow> real" where
  "distanceToSquared R a b =
     (let dx = fl R (vx a - vx b);
          dy = fl R (vy a - vy b);
          dz = fl R (vz a - vz b)
      in fl R (fl R (fl R (dx * dx) + fl R (dy * dy)) + fl R (dz * dz)))"

definition distanceTo :: "Runtime \<Rightarrow> Vector3 \<Rightarrow> Vector3 \<Rightarrow> real" where
  "distanceTo R a b = Math_sqrt R (distanceToSquared R a b)"

datatype TargetColor = Red | Blue

record Player =
  name :: string
  rank :: nat
  country :: string
  pp :: string
  countryRank :: nat
  profilePicture :: string
  color :: TargetColor

record ColorSet =
  main :: string
  glow :: string
  dark :: string

fun COLORS :: "TargetColor \<Rightarrow> ColorSet" where
  "COLORS Red = \<lparr>main = ''#ff3366'', glow = ''#ff6b6b'', dark = ''#c92a2a''\<rparr>"
| "COLORS Blue = \<lparr>main = ''#3366ff'', glow = ''#74c0fc'', dark = ''#1971c2''\<rparr>"

record Sprite =
  mesh_id :: nat
  position :: Vector3
  scale :: Vector3
  material_opacity :: real
  material_disposed :: bool
  palette :: ColorSet

record Target =
  mesh :: Sprite
  player :: Player
  velocity :: Vector3
  alive :: bool
  avatarImage :: "nat option"
  spawnTime :: real

record NamePopup =
  popup_mesh :: Sprite
  popup_velocity :: Vector3
  lifetime :: real
  opacity :: real

text \<open>
  The fields of the class, followed by the part of the environment the class acts on: the
  render graph, the allocator of object identities, the stream behind \<open>Math.random()\<close>
  with the number of values already drawn, the image loads in flight (image identity and
  URL), the log of the URLs requested from the network, and the runtime's arithmetic.
\<close>

record PlayerTargets =
  players :: "Player list"
  targets :: "Target list"
  namePopups :: "NamePopup list"
  avatarCache :: "string \<rightharpoonup> nat"
  spawnTimer :: real
  spawnInterval :: real
  playerIndex :: nat
  gameTime :: real
  scene :: "nat set"
  nextId :: nat
  random :: "nat \<Rightarrow> real"
  randomCalls :: nat
  pending :: "(nat \<times> string) list"
  requests :: "string list"
  runtime :: Runtime

datatype JsError = TypeError

section \<open>Operations\<close>

definition Math_random :: "PlayerTargets \<Rightarrow> real \<times> PlayerTargets" where
  "Math_random s = (random s (randomCalls s), s\<lparr>randomCalls := Suc (randomCalls s)\<rparr>)"

text \<open>
  The library's \<open>generateUUID()\<close> draws four values of \<open>Math.random()\<close>; the UUID itself
  is not kept. A canvas texture, its image source, a sprite material and a sprite get one UUID
  each when they are constructed (the geometry shared by all sprites is taken as built).
\<close>

definition generateUUID :: "PlayerTargets \<Rightarrow> PlayerTargets" where
  "generateUUID s = s\<lparr>randomCalls := randomCalls s + 4\<rparr>"

definition new_texture_material_sprite :: "PlayerTargets \<Rightarrow> PlayerTargets" where
  "new_texture_material_sprite s = generateUUID (generateUUID (generateUUID (generateUUID s)))"

text \<open>
  \<open>spawnNamePopup(player, position)\<close>: the canvas is drawn with
  \<open>COLORS[player.color]\<close>, the sprite is scaled to \<open>(6, 1.5, 1)\<close> and placed at the
  position, the drift velocity draws three random numbers, and the popup is pushed and added
  to the render graph.
\<close>

definition spawnNamePopup :: "Player \<Rightarrow> Vector3 \<Rightarrow> PlayerTargets \<Rightarrow> PlayerTargets" where
  "spawnNamePopup p pos s =
     (let R = runtime s;
          colors = COLORS (color p);
          sprite = \<lparr>mesh_id = nextId s, position = pos, scale = Vector3 6 1.5 1,
                    material_opacity = 1, material_disposed = False, palette = colors\<rparr>;
          s1 = new_texture_material_sprite (s\<lparr>nextId := Suc (nextId s)\<rparr>);
          (r0, s2) = Math_random s1;
          (r1, s3) = Math_random s2;
          (r2, s4) = Math_random s3;
          vel = Vector3 (fl R (fl R (r0 - 0.5) * 3)) (fl R (6 + fl R (r1 * 3)))
                  (fl R (fl R (r2 - 0.5) * 3));
          popup = \<lparr>popup_mesh = sprite, popup_velocity = vel, lifetime = 1.5, opacity = 1\<rparr>
      in s4\<lparr>namePopups := namePopups s4 @ [popup],
             scene := insert (mesh_id sprite) (scene s4)\<rparr>)"

text \<open>
  \<open>removeTarget(target, spawnPopup)\<close>, with the target given by its index in
  \<open>this.targets\<close>: the array holds references, so the mutation of the target object is
  the update of the array element.
\<close>

definition removeTarget :: "nat \<Rightarrow> bool \<Rightarrow> PlayerTargets \<Rightarrow> PlayerTargets" where
  "removeTarget i spawnPopup s =
     (let target = targets s ! i;
          pos = position (mesh target);
          target' = target\<lparr>alive := False,
                            mesh := (mesh target)\<lparr>material_disposed := True\<rparr>\<rparr>;
          s1 = s\<lparr>targets := (targets s)[i := target'],
                  scene := scene s - {mesh_id (mesh target)}\<rparr>
      in if spawnPopup then spawnNamePopup (player target) pos s1 else s1)"

definition hitRadius :: real where
  "hitRadius = 3"

text \<open>
  \<open>checkHit(position, shotColor)\<close>: the \<open>for ... of\<close> loop over \<open>this.targets\<close>,
  from index \<open>i\<close> on. The array is not resized before the loop returns.
\<close>

function checkHit_from ::
  "nat \<Rightarrow> Vector3 \<Rightarrow> TargetColor \<Rightarrow> PlayerTargets \<Rightarrow> PlayerTargets \<times> (Player \<times> bool) option"
where
  "checkHit_from i pos shotColor s =
     (if i < length (targets s) then
        (let target = targets s ! i in
         if \<not> alive target then checkHit_from (Suc i) pos shotColor s
         else if distanceTo (runtime s) (position (mesh target)) pos < hitRadius then
           (let correct = (color (player target) = shotColor)
            in (removeTarget i True s, Some (player target, correct)))
         else checkHit_from (Suc i) pos shotColor s)
      else (s, None))"
  by pat_completeness auto
termination
  by (relation "measure (\<lambda>(i, pos, shotColor, s). length (targets s) - i)") auto

definition checkHit ::
  "Vector3 \<Rightarrow> TargetColor \<Rightarrow> PlayerTargets \<Rightarrow> PlayerTargets \<times> (Player \<times> bool) option"
where
  "checkHit pos shotColor s = checkHit_from 0 pos shotColor s"

text \<open>
  \<open>loadAvatar(url)\<close>: the executor of the promise runs at once. With the URL in the
  cache the promise is resolved with the cached image. Otherwise a new image is created and
  its \<open>src\<close> is set, which sends the request; the promise is settled later by the
  \<open>onload\<close> or \<open>onerror\<close> event of that image.
\<close>

datatype Promise = Resolved nat | Awaiting nat

definition loadAvatar :: "string \<Rightarrow> PlayerTargets \<Rightarrow> Promise \<times> PlayerTargets" where
  "loadAvatar url s =
     (case avatarCache s url of
        Some img \<Rightarrow> (Resolved img, s)
      | None \<Rightarrow>
          (let img = nextId s
           in (Awaiting img,
               s\<lparr>nextId := Suc (nextId s),
                  pending := pending s @ [(img, url)],
                  requests := requests s @ [url]\<rparr>)))"

text \<open>The \<open>onload\<close> handler of image \<open>img\<close>, requested for \<open>url\<close>.\<close>

definition img_onload :: "nat \<Rightarrow> string \<Rightarrow> PlayerTargets \<Rightarrow> nat \<times> PlayerTargets" where
  "img_onload img url s =
     (img, s\<lparr>avatarCache := (avatarCache s)(url \<mapsto> img),
              pending := remove1 (img, url) (pending s)\<rparr>)"

text \<open>The \<open>onerror\<close> handler rejects the promise and leaves the cache alone.\<close>

definition img_onerror :: "nat \<Rightarrow> string \<Rightarrow> PlayerTargets \<Rightarrow> PlayerTargets" where
  "img_onerror img url s = s\<lparr>pending := remove1 (img, url) (pending s)\<rparr>"

text \<open>
  \<open>preloadAvatars()\<close> up to its \<open>await\<close>: one \<open>loadAvatar\<close> call for each of the
  first 50 players, in order.
\<close>

definition preloadAvatars :: "PlayerTargets \<Rightarrow> PlayerTargets" where
  "preloadAvatars s =
     fold (\<lambda>p t. snd (loadAvatar (profilePicture p) t)) (take 50 (players s)) s"

definition setPlayers :: "Player list \<Rightarrow> PlayerTargets \<Rightarrow> PlayerTargets" where
  "setPlayers ps s = preloadAvatars (s\<lparr>players := ps\<rparr>)"

definition start :: "PlayerTargets \<Rightarrow> PlayerTargets" where
  "start s = s\<lparr>targets := [], namePopups := [], playerIndex := 0, spawnTimer := 0,
               gameTime := 0\<rparr>"

text \<open>
  \<open>spawnTarget()\<close>. Reading \<open>this.players[this.playerIndex++]\<close> past the end of the
  array gives \<open>undefined\<close>, and the next line (\<open>player.profilePicture\<close>) throws a
  TypeError. The texture, the material and the sprite are constructed before the source draws
  its six random numbers, in the order of the source: angle, spawn radius, depth, then the
  three components of the velocity. \<open>Math.PI\<close> is the number nearest to \<open>pi\<close>. The
  content of the canvas is kept as the colour table entry only.
\<close>

definition spawnTarget :: "PlayerTargets \<Rightarrow> JsError + PlayerTargets" where
  "spawnTarget s =
     (if playerIndex s < length (players s) then
        (let R = runtime s;
             p = players s ! playerIndex s;
             s0 = s\<lparr>playerIndex := Suc (playerIndex s)\<rparr>;
             avatar = avatarCache s0 (profilePicture p);
             colors = COLORS (color p);
             s1 = new_texture_material_sprite (s0\<lparr>nextId := Suc (nextId s0)\<rparr>);
             (r0, s2) = Math_random s1;
             angle = fl R (fl R (r0 * fl R pi) * 2);
             (r1, s3) = Math_random s2;
             spawnRadius = fl R (fl R (r1 * 12) + 5);
             (r2, s4) = Math_random s3;
             sprite = \<lparr>mesh_id = nextId s0,
                       position = Vector3 (fl R (Math_cos R angle * spawnRadius))
                                    (fl R (Math_sin R angle * spawnRadius))
                                    (fl R (- 120 - fl R (r2 * 40))),
                       scale = Vector3 4 4 1,
                       material_opacity = 1, material_disposed = False, palette = colors\<rparr>;
             (r3, s5) = Math_random s4;
             (r4, s6) = Math_random s5;
             (r5, s7) = Math_random s6;
             vel = Vector3 (fl R (fl R (r3 - 0.5) * 5)) (fl R (fl R (r4 - 0.5) * 5))
                     (fl R (12 + fl R (r5 * 8)));
             target = \<lparr>mesh = sprite, player = p, velocity = vel, alive = True,
                       avatarImage = avatar, spawnTime = gameTime s7\<rparr>;
             s8 = s7\<lparr>targets := targets s7 @ [target],
                      scene := insert (mesh_id sprite) (scene s7)\<rparr>
         in if playerIndex s8 < length (players s8)
            then Inr (snd (loadAvatar (profilePicture (players s8 ! playerIndex s8)) s8))
            else Inr s8)
      else Inl TypeError)"

definition updateTargetPulse :: "nat \<Rightarrow> PlayerTargets \<Rightarrow> PlayerTargets" where
  "updateTargetPulse i s =
     (let R = runtime s;
          target = targets s ! i;
          pulse = fl R (fl R (Math_sin R (fl R (gameTime s * 4)) * 0.5) + 0.5);
          target' = target\<lparr>mesh := (mesh target)
                      \<lparr>material_opacity := fl R (fl R (9 / 10) + fl R (pulse * fl R (1 / 10)))\<rparr>\<rparr>
      in s\<lparr>targets := (targets s)[i := target']\<rparr>)"

text \<open>The body of the loop over the targets in \<open>update\<close>, for the target at index \<open>i\<close>.\<close>

definition updateTarget :: "real \<Rightarrow> nat \<Rightarrow> PlayerTargets \<Rightarrow> PlayerTargets" where
  "updateTarget delta i s =
     (let R = runtime s;
          target = targets s ! i in
      if \<not> alive target then s
      else
        (let moved = target\<lparr>mesh := (mesh target)\<lparr>position :=
                        add R (position (mesh target))
                          (multiplyScalar R (velocity target) delta)\<rparr>\<rparr>;
             s1 = s\<lparr>targets := (targets s)[i := moved]\<rparr>;
             s2 = updateTargetPulse i s1
         in if vz (position (mesh (targets s2 ! i))) > 5 then removeTarget i False s2 else s2))"

text \<open>
  The body of the loop over the popups, for index \<open>i\<close>; an expired popup leaves the render
  graph and is spliced out of the array.
\<close>

definition updatePopup :: "real \<Rightarrow> nat \<Rightarrow> PlayerTargets \<Rightarrow> PlayerTargets" where
  "updatePopup delta i s =
     (let R = runtime s;
          popup = namePopups s ! i;
          lifetime' = fl R (lifetime popup - delta);
          opacity' = max 0 (fl R (lifetime' / 1.5));
          m = popup_mesh popup;
          m' = m\<lparr>position := add R (position m) (multiplyScalar R (popup_velocity popup) delta),
                 scale := multiplyScalar R (scale m) (fl R (1 + fl R (delta * fl R (3 / 10)))),
                 material_opacity := opacity'\<rparr>;
          popup' = popup\<lparr>lifetime := lifetime', opacity := opacity', popup_mesh := m'\<rparr>;
          s1 = s\<lparr>namePopups := (namePopups s)[i := popup']\<rparr>
      in if lifetime' \<le> 0
         then s1\<lparr>scene := scene s1 - {mesh_id m'},
                  namePopups := take i (namePopups s1) @ drop (Suc i) (namePopups s1)\<rparr>
         else s1)"

text \<open>
  The popup loop runs \<open>i\<close> from \<open>length - 1\<close> down to \<open>0\<close>; the first argument is
  \<open>i + 1\<close>. A splice at \<open>i\<close> leaves the indices below \<open>i\<close> in place.
\<close>

fun updatePopups_from :: "nat \<Rightarrow> real \<Rightarrow> PlayerTargets \<Rightarrow> PlayerTargets" where
  "updatePopups_from 0 delta s = s"
| "updatePopups_from (Suc i) delta s = updatePopups_from i delta (updatePopup delta i s)"

text \<open>
  \<open>update(delta)\<close>. Both clocks are advanced by a rounded addition. The loop over the
  targets visits every index of the array once, the target pushed by this call included; its
  body never resizes the array.
\<close>

definition update :: "real \<Rightarrow> PlayerTargets \<Rightarrow> JsError + PlayerTargets" where
  "update delta s =
     (let R = runtime s;
          s1 = s\<lparr>gameTime := fl R (gameTime s + delta),
                  spawnTimer := fl R (spawnTimer s + delta)\<rparr>;
          spawned =
            (if spawnTimer s1 \<ge> spawnInterval s1 \<and> playerIndex s1 < length (players s1)
             then (case spawnTarget s1 of
                     Inl e \<Rightarrow> Inl e
                   | Inr s2 \<Rightarrow> Inr (s2\<lparr>spawnTimer := 0\<rparr>))
             else Inr s1)
      in case spawned of
           Inl e \<Rightarrow> Inl e
         | Inr s3 \<Rightarrow>
             (let s4 = fold (updateTarget delta) [0..<length (targets s3)] s3
              in Inr (updatePopups_from (length (namePopups s4)) delta s4)))"

text \<open>A run of \<open>update\<close> calls, one per delta; an exception ends the run.\<close>

fun advances :: "real list \<Rightarrow> PlayerTargets \<Rightarrow> JsError + PlayerTargets" where
  "advances [] s = Inr s"
| "advances (d # ds) s = (case update d s of Inl e \<Rightarrow> Inl e | Inr s' \<Rightarrow> advances ds s')"

definition getAliveTargets :: "PlayerTargets \<Rightarrow> Target list" where
  "getAliveTargets s = filter alive (targets s)"

text \<open>
  A pool as the constructor leaves it (the field initialisers), in an environment given by
  its render graph, allocator, random stream and runtime.
\<close>

definition new_PlayerTargets ::
  "nat set \<Rightarrow> nat \<Rightarrow> (nat \<Rightarrow> real) \<Rightarrow> Runtime \<Rightarrow> PlayerTargets"
where
  "new_PlayerTargets sc n rnd R =
     \<lparr>players = [], targets = [], namePopups = [], avatarCache = Map.empty,
      spawnTimer = 0, spawnInterval = 0.5, playerIndex = 0, gameTime = 0,
      scene = sc, nextId = n, random = rnd, randomCalls = 0, pending = [], requests = [],
      runtime = R\<rparr>"

section \<open>Auxiliary notions and scenario data\<close>

text \<open>The test of the resolver's loop: the target is alive and closer than the hit radius.\<close>

definition hits :: "Runtime \<Rightarrow> Vector3 \<Rightarrow> Target \<Rightarrow> bool" where
  "hits R pos t = (alive t \<and> distanceTo R (position (mesh t)) pos < hitRadius)"


text \<open>
  What \<open>removeTarget\<close> writes to a target, and the popup \<open>spawnNamePopup\<close> builds, with
  \<open>k\<close> the index in the random stream of the first of its three draws.
\<close>

definition retired :: "Target \<Rightarrow> Target" where
  "retired t = t\<lparr>alive := False, mesh := (mesh t)\<lparr>material_disposed := True\<rparr>\<rparr>"

definition popup_for ::
  "Runtime \<Rightarrow> nat \<Rightarrow> Player \<Rightarrow> Vector3 \<Rightarrow> (nat \<Rightarrow> real) \<Rightarrow> nat \<Rightarrow> NamePopup"
where
  "popup_for R n p pos rnd k =
     \<lparr>popup_mesh = \<lparr>mesh_id = n, position = pos, scale = Vector3 6 1.5 1,
                    material_opacity = 1, material_disposed = False,
                    palette = COLORS (color p)\<rparr>,
      popup_velocity = Vector3 (fl R (fl R (rnd k - 0.5) * 3)) (fl R (6 + fl R (rnd (Suc k) * 3)))
                         (fl R (fl R (rnd (Suc (Suc k)) - 0.5) * 3)),
      lifetime = 1.5, opacity = 1\<rparr>"

text \<open>
  One pass of the loop body of \<open>update\<close> over a single target: a live target is moved and
  its pulse refreshed, and retired when its depth is then beyond 5.
\<close>

definition moved :: "Runtime \<Rightarrow> real \<Rightarrow> real \<Rightarrow> Target \<Rightarrow> Target" where
  "moved R delta gt t =
     t\<lparr>mesh := (mesh t)
         \<lparr>position := add R (position (mesh t)) (multiplyScalar R (velocity t) delta),
          material_opacity :=
            fl R (fl R (9 / 10)
                  + fl R (fl R (fl R (Math_sin R (fl R (gt * 4)) * 0.5) + 0.5) * fl R (1 / 10)))\<rparr>\<rparr>"

definition passed :: "Runtime \<Rightarrow> real \<Rightarrow> Target \<Rightarrow> bool" where
  "passed R delta t =
     (alive t \<and> fl R (vz (position (mesh t)) + fl R (vz (velocity t) * delta)) > 5)"

definition advanceTarget :: "Runtime \<Rightarrow> real \<Rightarrow> real \<Rightarrow> Target \<Rightarrow> Target" where
  "advanceTarget R delta gt t =
     (if \<not> alive t then t
      else if passed R delta t then retired (moved R delta gt t)
      else moved R delta gt t)"

definition passed_ids :: "Runtime \<Rightarrow> real \<Rightarrow> Target list \<Rightarrow> nat set" where
  "passed_ids R delta ts = set (map (\<lambda>t. mesh_id (mesh t)) (filter (passed R delta) ts))"

definition decay :: "Runtime \<Rightarrow> real \<Rightarrow> NamePopup \<Rightarrow> NamePopup" where
  "decay R delta p =
     p\<lparr>lifetime := fl R (lifetime p - delta),
       opacity := max 0 (fl R (fl R (lifetime p - delta) / 1.5)),
       popup_mesh := (popup_mesh p)
         \<lparr>position := add R (position (popup_mesh p)) (multiplyScalar R (popup_velocity p) delta),
          scale := multiplyScalar R (scale (popup_mesh p))
                     (fl R (1 + fl R (delta * fl R (3 / 10)))),
          material_opacity := max 0 (fl R (fl R (lifetime p - delta) / 1.5))\<rparr>\<rparr>"

definition expired :: "Runtime \<Rightarrow> real \<Rightarrow> NamePopup \<Rightarrow> bool" where
  "expired R delta p = (fl R (lifetime p - delta) \<le> 0)"

definition expired_ids :: "Runtime \<Rightarrow> real \<Rightarrow> NamePopup list \<Rightarrow> nat set" where
  "expired_ids R delta ps =
     set (map (\<lambda>p. mesh_id (popup_mesh p)) (filter (expired R delta) ps))"

text \<open>
  The target \<open>spawnTarget\<close> pushes (its six draws come after the sixteen of the library),
  and the test that guards the spawn in \<open>update\<close>.
\<close>

definition spawned_target :: "PlayerTargets \<Rightarrow> Target" where
  "spawned_target s =
     (let R = runtime s; p = players s ! playerIndex s; k = randomCalls s + 16; rnd = random s;
          angle = fl R (fl R (rnd k * fl R pi) * 2);
          spawnRadius = fl R (fl R (rnd (k + 1) * 12) + 5)
      in \<lparr>mesh = \<lparr>mesh_id = nextId s,
                  position = Vector3 (fl R (Math_cos R angle * spawnRadius))
                               (fl R (Math_sin R angle * spawnRadius))
                               (fl R (- 120 - fl R (rnd (k + 2) * 40))),
                  scale = Vector3 4 4 1, material_opacity = 1, material_disposed = False,
                  palette = COLORS (color p)\<rparr>,
          player = p,
          velocity = Vector3 (fl R (fl R (rnd (k + 3) - 0.5) * 5))
                       (fl R (fl R (rnd (k + 4) - 0.5) * 5))
                       (fl R (12 + fl R (rnd (k + 5) * 8))),
          alive = True, avatarImage = avatarCache s (profilePicture p),
          spawnTime = gameTime s\<rparr>)"

definition spawning :: "real \<Rightarrow> PlayerTargets \<Rightarrow> bool" where
  "spawning delta s =
     (fl (runtime s) (spawnTimer s + delta) \<ge> spawnInterval s
      \<and> playerIndex s < length (players s))"

definition after_loops :: "real \<Rightarrow> PlayerTargets \<Rightarrow> PlayerTargets" where
  "after_loops delta t =
     t\<lparr>targets := map (advanceTarget (runtime t) delta (gameTime t)) (targets t),
       namePopups := filter (\<lambda>p. \<not> lifetime p \<le> 0) (map (decay (runtime t) delta) (namePopups t)),
       scene := scene t - passed_ids (runtime t) delta (targets t)
                  - expired_ids (runtime t) delta (namePopups t)\<rparr>"

definition arrivals :: "real \<Rightarrow> PlayerTargets \<Rightarrow> Target list" where
  "arrivals delta s =
     (if spawning delta s
      then [spawned_target (s\<lparr>gameTime := fl (runtime s) (gameTime s + delta)\<rparr>)]
      else [])"

text \<open>
  The count of spawn intervals crossed along a run of deltas, as the spec words it: the time
  accumulated since the last crossing reaches the interval, and the accumulation starts again
  from 0. The accumulation is the rounded addition of the runtime; the count is a function of
  the deltas, the interval and the timer at the start.
\<close>

fun crossings :: "Runtime \<Rightarrow> real \<Rightarrow> real \<Rightarrow> real list \<Rightarrow> nat" where
  "crossings R interval timer [] = 0"
| "crossings R interval timer (d # ds) =
     (if fl R (timer + d) \<ge> interval then Suc (crossings R interval 0 ds)
      else crossings R interval (fl R (timer + d)) ds)"

text \<open>
  The pools that can arise: a constructed pool, and any pool after a public method or an image
  event. In all of them the sprite of every target carries an identity that the allocator has
  already handed out.
\<close>

definition ids_allocated :: "PlayerTargets \<Rightarrow> bool" where
  "ids_allocated s = (\<forall>t \<in> set (targets s). mesh_id (mesh t) < nextId s)"

inductive reachable :: "PlayerTargets \<Rightarrow> bool" where
  constructed: "reachable (new_PlayerTargets sc n rnd R)"
| after_setPlayers: "reachable s \<Longrightarrow> reachable (setPlayers ps s)"
| after_start: "reachable s \<Longrightarrow> reachable (start s)"
| after_update: "reachable s \<Longrightarrow> update delta s = Inr s' \<Longrightarrow> reachable s'"
| after_checkHit: "reachable s \<Longrightarrow> reachable (fst (checkHit pos c s))"
| after_onload: "reachable s \<Longrightarrow> reachable (snd (img_onload img url s))"
| after_onerror: "reachable s \<Longrightarrow> reachable (img_onerror img url s)"

text \<open>
  Players, a live target and a pool holding given targets, for the concrete scenarios. The
  scenarios run in a runtime that rounds nothing; their numbers are binary fractions of a few
  digits, and so are all the sums, products, quotients and square roots the scenarios say
  anything about, so that round-to-nearest leaves every one of them as it is.
\<close>

definition exact_runtime :: Runtime where
  "exact_runtime = \<lparr>fl = (\<lambda>x. x), Math_sqrt = sqrt, Math_sin = sin, Math_cos = cos\<rparr>"

definition alice :: Player where
  "alice = \<lparr>name = ''alice'', rank = 1, country = ''US'', pp = ''15000.5'', countryRank = 1,
            profilePicture = ''https://cdn.example/alice.png'', color = Red\<rparr>"

definition bob :: Player where
  "bob = \<lparr>name = ''bob'', rank = 2, country = ''DE'', pp = ''14000.25'', countryRank = 1,
          profilePicture = ''https://cdn.example/bob.png'', color = Blue\<rparr>"

definition carol :: Player where
  "carol = \<lparr>name = ''carol'', rank = 3, country = ''FR'', pp = ''13000'', countryRank = 1,
            profilePicture = ''https://cdn.example/carol.png'', color = Red\<rparr>"

definition live_target :: "nat \<Rightarrow> Player \<Rightarrow> Vector3 \<Rightarrow> Vector3 \<Rightarrow> Target" where
  "live_target n p pos vel =
     \<lparr>mesh = \<lparr>mesh_id = n, position = pos, scale = Vector3 4 4 1, material_opacity = 1,
              material_disposed = False, palette = COLORS (color p)\<rparr>,
      player = p, velocity = vel, alive = True, avatarImage = None, spawnTime = 0\<rparr>"

definition pool_with :: "Player list \<Rightarrow> Target list \<Rightarrow> PlayerTargets" where
  "pool_with ps ts =
     (new_PlayerTargets (set (map (\<lambda>t. mesh_id (mesh t)) ts)) (length ts) (\<lambda>n. 0) exact_runtime)
       \<lparr>players := ps, targets := ts, playerIndex := length ts\<rparr>"

section \<open>The resolver's loop\<close>

declare checkHit_from.simps [simp del]

lemma checkHit_from_end:
  "\<not> i < length (targets s) \<Longrightarrow> checkHit_from i pos c s = (s, None)"
  by (subst checkHit_from.simps) simp

lemma checkHit_from_step:
  "i < length (targets s) \<Longrightarrow>
   checkHit_from i pos c s =
     (if hits (runtime s) pos (targets s ! i)
      then (removeTarget i True s,
            Some (player (targets s ! i), color (player (targets s ! i)) = c))
      else checkHit_from (Suc i) pos c s)"
  by (subst checkHit_from.simps) (simp add: hits_def Let_def)


lemma checkHit_from_miss:
  "\<forall>j. i \<le> j \<and> j < length (targets s) \<longrightarrow> \<not> hits (runtime s) pos (targets s ! j)
   \<Longrightarrow> checkHit_from i pos c s = (s, None)"
proof (induction "length (targets s) - i" arbitrary: i)
  case 0
  then show ?case by (simp add: checkHit_from_end)
next
  case (Suc n)
  then have il: "i < length (targets s)" by simp
  have n: "n = length (targets s) - Suc i" using Suc(2) by simp
  have nh: "\<not> hits (runtime s) pos (targets s ! i)" using Suc(3) il by auto
  have rest: "\<forall>j. Suc i \<le> j \<and> j < length (targets s) \<longrightarrow> \<not> hits (runtime s) pos (targets s ! j)"
    using Suc(3) by auto
  from Suc(1)[OF n rest] show ?case using il nh by (simp add: checkHit_from_step)
qed

lemma checkHit_from_hit:
  "i \<le> k \<Longrightarrow> k < length (targets s) \<Longrightarrow> hits (runtime s) pos (targets s ! k)
   \<Longrightarrow> \<forall>j. i \<le> j \<and> j < k \<longrightarrow> \<not> hits (runtime s) pos (targets s ! j)
   \<Longrightarrow> checkHit_from i pos c s =
         (removeTarget k True s, Some (player (targets s ! k), color (player (targets s ! k)) = c))"
proof (induction "k - i" arbitrary: i)
  case 0
  then have "i = k" by simp
  then show ?case using 0 by (simp add: checkHit_from_step)
next
  case (Suc n)
  then have il: "i < length (targets s)" and ik: "i < k" by simp_all
  have n: "n = k - Suc i" using Suc(2) by simp
  have nh: "\<not> hits (runtime s) pos (targets s ! i)" using Suc(6) ik by auto
  have rest: "\<forall>j. Suc i \<le> j \<and> j < k \<longrightarrow> \<not> hits (runtime s) pos (targets s ! j)"
    using Suc(6) by auto
  from Suc(1)[OF n _ Suc(4) Suc(5) rest] ik
  show ?case using il nh by (simp add: checkHit_from_step)
qed

text \<open>
  Every call either finds no qualifying target and returns the pool as it was, or retires the
  qualifying target of least index.
\<close>

lemma checkHit_cases:
  "(checkHit pos c s = (s, None)
      \<and> (\<forall>j < length (targets s). \<not> hits (runtime s) pos (targets s ! j)))
   \<or> (\<exists>k < length (targets s). hits (runtime s) pos (targets s ! k)
         \<and> (\<forall>j < k. \<not> hits (runtime s) pos (targets s ! j))
         \<and> checkHit pos c s =
            (removeTarget k True s,
             Some (player (targets s ! k), color (player (targets s ! k)) = c)))"
proof (cases "\<exists>k < length (targets s). hits (runtime s) pos (targets s ! k)")
  case False
  then show ?thesis by (simp add: checkHit_def checkHit_from_miss)
next
  case True
  define k where "k = (LEAST k. k < length (targets s) \<and> hits (runtime s) pos (targets s ! k))"
  from True have k: "k < length (targets s) \<and> hits (runtime s) pos (targets s ! k)"
    unfolding k_def by - (rule LeastI_ex, blast)
  have least: "\<forall>j < k. \<not> hits (runtime s) pos (targets s ! j)"
  proof (intro allI impI notI)
    fix j assume "j < k" "hits (runtime s) pos (targets s ! j)"
    then have "j < length (targets s) \<and> hits (runtime s) pos (targets s ! j)" using k by simp
    then have "k \<le> j" unfolding k_def by (rule Least_le)
    with \<open>j < k\<close> show False by simp
  qed
  have "checkHit pos c s =
            (removeTarget k True s,
             Some (player (targets s ! k), color (player (targets s ! k)) = c))"
    unfolding checkHit_def using k least by (intro checkHit_from_hit) auto
  then show ?thesis using k least by blast
qed


lemma sqrt_less_iff_sq: "0 \<le> c \<Longrightarrow> sqrt x < c \<longleftrightarrow> x < c * c"
  using real_sqrt_less_iff [of x "c * c"] by (simp add: real_sqrt_mult)

lemma distanceTo_exact:
  "distanceTo exact_runtime a b
     = sqrt ((vx a - vx b) * (vx a - vx b) + (vy a - vy b) * (vy a - vy b)
             + (vz a - vz b) * (vz a - vz b))"
  by (simp add: distanceTo_def distanceToSquared_def exact_runtime_def Let_def)



lemma hits_exact:
  "hits exact_runtime pos t \<longleftrightarrow>
     alive t \<and> (vx (position (mesh t)) - vx pos) * (vx (position (mesh t)) - vx pos)
             + (vy (position (mesh t)) - vy pos) * (vy (position (mesh t)) - vy pos)
             + (vz (position (mesh t)) - vz pos) * (vz (position (mesh t)) - vz pos) < 9"
  using sqrt_less_iff_sq [of 3] by (simp add: hits_def distanceTo_exact hitRadius_def)

section \<open>Retiring a target\<close>

lemma randomCalls_new_texture_material_sprite:
  "new_texture_material_sprite s = s\<lparr>randomCalls := randomCalls s + 16\<rparr>"
  by (simp add: new_texture_material_sprite_def generateUUID_def)

lemma removeTarget_hit:
  "removeTarget k True s =
     s\<lparr>targets := (targets s)[k := retired (targets s ! k)],
       namePopups := namePopups s @
          [popup_for (runtime s) (nextId s) (player (targets s ! k))
             (position (mesh (targets s ! k))) (random s) (randomCalls s + 16)],
       scene := insert (nextId s) (scene s - {mesh_id (mesh (targets s ! k))}),
       nextId := Suc (nextId s),
       randomCalls := randomCalls s + 19\<rparr>"
  by (rule PlayerTargets.equality)
    (simp_all add: removeTarget_def spawnNamePopup_def Math_random_def Let_def retired_def
      popup_for_def randomCalls_new_texture_material_sprite)

lemma removeTarget_miss:
  "removeTarget k False s =
     s\<lparr>targets := (targets s)[k := retired (targets s ! k)],
       scene := scene s - {mesh_id (mesh (targets s ! k))}\<rparr>"
  by (simp add: removeTarget_def Let_def retired_def)

lemma count_alive_retire:
  "k < length ts \<Longrightarrow> alive (ts ! k) \<Longrightarrow>
   Suc (length (filter alive (ts[k := retired (ts ! k)]))) = length (filter alive ts)"
proof (induction ts arbitrary: k)
  case Nil
  then show ?case by simp
next
  case (Cons t ts)
  show ?case
  proof (cases k)
    case 0
    then show ?thesis using Cons.prems by (simp add: retired_def)
  next
    case (Suc m)
    then show ?thesis using Cons.prems Cons.IH [of m] by simp
  qed
qed

lemma COLORS_inj: "COLORS a = COLORS b \<longleftrightarrow> a = b"
  by (cases a; cases b) simp_all

lemma checkHit_effect:
  assumes "checkHit pos c s = (s', r)"
  shows "length (targets s') = length (targets s)
    \<and> (r = None \<longrightarrow> s' = s)
    \<and> (r \<noteq> None \<longrightarrow>
           (\<exists>k < length (targets s). alive (targets s ! k) \<and> \<not> alive (targets s' ! k)
              \<and> fst (the r) = player (targets s ! k)
              \<and> (\<forall>j < length (targets s). j \<noteq> k \<longrightarrow> targets s' ! j = targets s ! j))
           \<and> Suc (length (getAliveTargets s')) = length (getAliveTargets s))
    \<and> (\<forall>j < length (targets s). \<not> alive (targets s ! j) \<longrightarrow> targets s' ! j = targets s ! j)"
proof -
  from checkHit_cases [of pos c s] assms
  consider "s' = s" "r = None"
    | k where "k < length (targets s)" "hits (runtime s) pos (targets s ! k)"
        "s' = removeTarget k True s"
        "r = Some (player (targets s ! k), color (player (targets s ! k)) = c)"
    by auto
  then show ?thesis
  proof cases
    case 1
    then show ?thesis by simp
  next
    case 2
    have al: "alive (targets s ! k)" using 2(2) by (simp add: hits_def)
    have ts: "targets s' = (targets s)[k := retired (targets s ! k)]"
      using 2(3) by (simp add: removeTarget_hit)
    have dead: "\<not> alive (targets s' ! k)" using ts 2(1) by (simp add: retired_def)
    have cnt: "Suc (length (getAliveTargets s')) = length (getAliveTargets s)"
      unfolding getAliveTargets_def ts using count_alive_retire [OF 2(1) al] .
    have others: "\<forall>j < length (targets s). j \<noteq> k \<longrightarrow> targets s' ! j = targets s ! j"
      using ts by simp
    have deadkeep: "\<forall>j < length (targets s). \<not> alive (targets s ! j) \<longrightarrow>
        targets s' ! j = targets s ! j"
    proof (intro allI impI)
      fix j assume "j < length (targets s)" "\<not> alive (targets s ! j)"
      then have "j \<noteq> k" using al by auto
      then show "targets s' ! j = targets s ! j" using ts by simp
    qed
    show ?thesis using 2(1,4) al ts dead cnt others deadkeep by auto
  qed
qed

lemma checkHit_keeps_motion:
  "i < length (targets s) \<Longrightarrow>
   velocity (targets (fst (checkHit pos c s)) ! i) = velocity (targets s ! i)
   \<and> position (mesh (targets (fst (checkHit pos c s)) ! i)) = position (mesh (targets s ! i))"
  using checkHit_cases [of pos c s]
  by (auto simp add: removeTarget_hit retired_def nth_list_update)

section \<open>The loops of update\<close>

lemma updateTarget_eq:
  "i < length (targets s) \<Longrightarrow>
   updateTarget delta i s =
     s\<lparr>targets := (targets s)[i := advanceTarget (runtime s) delta (gameTime s) (targets s ! i)],
       scene := scene s - passed_ids (runtime s) delta [targets s ! i]\<rparr>"
  by (simp add: updateTarget_def updateTargetPulse_def removeTarget_miss Let_def
      advanceTarget_def moved_def passed_def passed_ids_def retired_def add_def
      multiplyScalar_def)

lemma advance_prefix_step:
  "n < length ts \<Longrightarrow>
   (map f (take n ts) @ drop n ts)[n := f (ts ! n)] = map f (take (Suc n) ts) @ drop (Suc n) ts"
  by (simp add: take_Suc_conv_app_nth list_update_append Cons_nth_drop_Suc [symmetric])

lemma prefix_map_nth: "n < length ts \<Longrightarrow> (map f (take n ts) @ drop n ts) ! n = ts ! n"
  by (simp add: nth_append)

lemma passed_ids_snoc:
  "n < length ts \<Longrightarrow>
   A - passed_ids R delta (take n ts) - passed_ids R delta [ts ! n]
     = A - passed_ids R delta (take (Suc n) ts)"
  by (auto simp add: passed_ids_def take_Suc_conv_app_nth)

lemma fold_updateTarget:
  "n \<le> length (targets s) \<Longrightarrow>
   fold (updateTarget delta) [0..<n] s =
     s\<lparr>targets := map (advanceTarget (runtime s) delta (gameTime s)) (take n (targets s))
                    @ drop n (targets s),
       scene := scene s - passed_ids (runtime s) delta (take n (targets s))\<rparr>"
proof (induction n)
  case 0
  then show ?case by (simp add: passed_ids_def)
next
  case (Suc n)
  then have n: "n < length (targets s)" by simp
  let ?f = "advanceTarget (runtime s) delta (gameTime s)"
  let ?s = "s\<lparr>targets := map ?f (take n (targets s)) @ drop n (targets s),
       scene := scene s - passed_ids (runtime s) delta (take n (targets s))\<rparr>"
  have IH: "fold (updateTarget delta) [0..<n] s = ?s" using Suc by simp
  have len: "n < length (targets ?s)" using n by simp
  have "fold (updateTarget delta) [0..<Suc n] s = updateTarget delta n ?s"
    by (simp add: IH)
  also have "\<dots> = s\<lparr>targets := map ?f (take (Suc n) (targets s)) @ drop (Suc n) (targets s),
       scene := scene s - passed_ids (runtime s) delta (take (Suc n) (targets s))\<rparr>"
    using n
    by (simp add: updateTarget_eq [OF len] prefix_map_nth advance_prefix_step passed_ids_snoc)
  finally show ?case .
qed

lemma updatePopup_eq:
  "i < length (namePopups s) \<Longrightarrow>
   updatePopup delta i s =
     s\<lparr>namePopups := take i (namePopups s)
          @ filter (\<lambda>p. \<not> lifetime p \<le> 0) [decay (runtime s) delta (namePopups s ! i)]
          @ drop (Suc i) (namePopups s),
       scene := scene s - expired_ids (runtime s) delta [namePopups s ! i]\<rparr>"
  by (simp add: updatePopup_def Let_def decay_def expired_ids_def expired_def
      upd_conv_take_nth_drop)

lemma expired_ids_snoc:
  "n < length ps \<Longrightarrow>
   A - expired_ids R delta [ps ! n] - expired_ids R delta (take n ps)
     = A - expired_ids R delta (take (Suc n) ps)"
  by (auto simp add: expired_ids_def take_Suc_conv_app_nth)

lemma updatePopups_from_eq:
  "n \<le> length (namePopups s) \<Longrightarrow>
   updatePopups_from n delta s =
     s\<lparr>namePopups := filter (\<lambda>p. \<not> lifetime p \<le> 0)
                        (map (decay (runtime s) delta) (take n (namePopups s)))
          @ drop n (namePopups s),
       scene := scene s - expired_ids (runtime s) delta (take n (namePopups s))\<rparr>"
proof (induction n arbitrary: s)
  case 0
  then show ?case by (simp add: expired_ids_def)
next
  case (Suc n)
  then have n: "n < length (namePopups s)" by simp
  let ?R = "runtime s"
  let ?s = "updatePopup delta n s"
  have eq: "?s = s\<lparr>namePopups := take n (namePopups s)
          @ filter (\<lambda>p. \<not> lifetime p \<le> 0) [decay ?R delta (namePopups s ! n)]
          @ drop (Suc n) (namePopups s),
       scene := scene s - expired_ids ?R delta [namePopups s ! n]\<rparr>"
    using updatePopup_eq [OF n] .
  have len: "n \<le> length (namePopups ?s)" using n by (simp add: eq)
  have rt: "runtime ?s = ?R" by (simp add: eq)
  have tk: "take n (namePopups ?s) = take n (namePopups s)" using n by (simp add: eq)
  have dr: "drop n (namePopups ?s) = filter (\<lambda>p. \<not> lifetime p \<le> 0) [decay ?R delta (namePopups s ! n)]
          @ drop (Suc n) (namePopups s)" using n by (simp add: eq)
  have "updatePopups_from (Suc n) delta s = updatePopups_from n delta ?s" by simp
  also have "\<dots> = ?s\<lparr>namePopups := filter (\<lambda>p. \<not> lifetime p \<le> 0)
                         (map (decay ?R delta) (take n (namePopups ?s)))
          @ drop n (namePopups ?s),
       scene := scene ?s - expired_ids ?R delta (take n (namePopups ?s))\<rparr>"
    using Suc.IH [OF len] unfolding rt .
  also have "\<dots> = s\<lparr>namePopups := filter (\<lambda>p. \<not> lifetime p \<le> 0)
                         (map (decay ?R delta) (take (Suc n) (namePopups s)))
          @ drop (Suc n) (namePopups s),
       scene := scene s - expired_ids ?R delta (take (Suc n) (namePopups s))\<rparr>"
    unfolding tk dr using n
    by (simp add: eq expired_ids_snoc take_Suc_conv_app_nth)
  finally show ?case .
qed

lemma loadAvatar_frame:
  "\<exists>n pd rq. snd (loadAvatar url s) = s\<lparr>nextId := n, pending := pd, requests := rq\<rparr>
      \<and> nextId s \<le> n"
proof (cases "avatarCache s url")
  case None
  then have "snd (loadAvatar url s) = s\<lparr>nextId := Suc (nextId s),
       pending := pending s @ [(nextId s, url)], requests := requests s @ [url]\<rparr>"
    by (simp add: loadAvatar_def Let_def)
  then show ?thesis by (metis le_SucI order_refl)
next
  case (Some img)
  then have "snd (loadAvatar url s) = s\<lparr>nextId := nextId s, pending := pending s,
      requests := requests s\<rparr>"
    by (simp add: loadAvatar_def)
  then show ?thesis by (metis order_refl)
qed

lemma spawnTarget_eq:
  assumes "playerIndex s < length (players s)"
  shows "\<exists>n pd rq. spawnTarget s =
           Inr (s\<lparr>playerIndex := Suc (playerIndex s),
                  randomCalls := randomCalls s + 22,
                  targets := targets s @ [spawned_target s],
                  scene := insert (nextId s) (scene s),
                  nextId := n, pending := pd, requests := rq\<rparr>)
         \<and> nextId s < n"
proof -
  let ?s8 = "s\<lparr>playerIndex := Suc (playerIndex s),
                  randomCalls := randomCalls s + 22,
                  targets := targets s @ [spawned_target s],
                  scene := insert (nextId s) (scene s),
                  nextId := Suc (nextId s)\<rparr>"
  have s8: "(s\<lparr>playerIndex := Suc (playerIndex s), nextId := Suc (nextId s),
               randomCalls := Suc (Suc (Suc (Suc (Suc (Suc (randomCalls s + 16)))))),
               targets := targets s @ [spawned_target s],
               scene := insert (nextId s) (scene s)\<rparr>) = ?s8"
    by (rule PlayerTargets.equality) simp_all
  have sp: "spawnTarget s =
     (if playerIndex ?s8 < length (players ?s8)
      then Inr (snd (loadAvatar (profilePicture (players ?s8 ! playerIndex ?s8)) ?s8))
      else Inr ?s8)"
    using assms unfolding s8 [symmetric]
    by (simp add: spawnTarget_def Math_random_def Let_def spawned_target_def eval_nat_numeral
        randomCalls_new_texture_material_sprite)
  show ?thesis
  proof (cases "playerIndex ?s8 < length (players ?s8)")
    case False
    then have "spawnTarget s = Inr (?s8\<lparr>nextId := Suc (nextId s), pending := pending s,
        requests := requests s\<rparr>)"
      using sp by simp
    then show ?thesis
      by (intro exI [of _ "Suc (nextId s)"] exI [of _ "pending s"] exI [of _ "requests s"]) simp
  next
    case True
    obtain n pd rq where l: "snd (loadAvatar (profilePicture (players ?s8 ! playerIndex ?s8)) ?s8)
        = ?s8\<lparr>nextId := n, pending := pd, requests := rq\<rparr>" and n: "nextId ?s8 \<le> n"
      using loadAvatar_frame by blast
    have "spawnTarget s = Inr (?s8\<lparr>nextId := n, pending := pd, requests := rq\<rparr>)"
      using sp True l by simp
    moreover have "nextId s < n" using n by simp
    ultimately show ?thesis by (intro exI [of _ n] exI [of _ pd] exI [of _ rq]) simp
  qed
qed

lemma loops_eq:
  "updatePopups_from (length (namePopups (fold (updateTarget delta) [0..<length (targets t)] t)))
     delta (fold (updateTarget delta) [0..<length (targets t)] t) = after_loops delta t"
proof -
  have f: "fold (updateTarget delta) [0..<length (targets t)] t =
     t\<lparr>targets := map (advanceTarget (runtime t) delta (gameTime t)) (targets t),
       scene := scene t - passed_ids (runtime t) delta (targets t)\<rparr>"
    using fold_updateTarget [of "length (targets t)" t delta] by simp
  show ?thesis
    unfolding f
    by (subst updatePopups_from_eq) (simp_all add: after_loops_def)
qed

lemma update_unfold:
  "update delta s =
     (if spawning delta s
      then (case spawnTarget (s\<lparr>gameTime := fl (runtime s) (gameTime s + delta),
                                spawnTimer := fl (runtime s) (spawnTimer s + delta)\<rparr>) of
              Inl e \<Rightarrow> Inl e
            | Inr s2 \<Rightarrow> Inr (after_loops delta (s2\<lparr>spawnTimer := 0\<rparr>)))
      else Inr (after_loops delta (s\<lparr>gameTime := fl (runtime s) (gameTime s + delta),
                                     spawnTimer := fl (runtime s) (spawnTimer s + delta)\<rparr>)))"
  unfolding update_def Let_def loops_eq
  by (simp add: spawning_def split: sum.splits)

lemma update_eq:
  "\<exists>n pd rq. update delta s =
     Inr (s\<lparr>gameTime := fl (runtime s) (gameTime s + delta),
            spawnTimer := (if spawning delta s then 0 else fl (runtime s) (spawnTimer s + delta)),
            playerIndex := playerIndex s + length (arrivals delta s),
            randomCalls := randomCalls s + 22 * length (arrivals delta s),
            targets := map (advanceTarget (runtime s) delta (fl (runtime s) (gameTime s + delta)))
                         (targets s @ arrivals delta s),
            namePopups := filter (\<lambda>p. \<not> lifetime p \<le> 0)
                            (map (decay (runtime s) delta) (namePopups s)),
            scene := (scene s \<union> set (map (\<lambda>t. mesh_id (mesh t)) (arrivals delta s)))
                       - passed_ids (runtime s) delta (targets s @ arrivals delta s)
                       - expired_ids (runtime s) delta (namePopups s),
            nextId := n, pending := pd, requests := rq\<rparr>)
     \<and> nextId s + length (arrivals delta s) \<le> n"
proof (cases "spawning delta s")
  case False
  have "update delta s =
     Inr (s\<lparr>gameTime := fl (runtime s) (gameTime s + delta),
            spawnTimer := (if spawning delta s then 0 else fl (runtime s) (spawnTimer s + delta)),
            playerIndex := playerIndex s + length (arrivals delta s),
            randomCalls := randomCalls s + 22 * length (arrivals delta s),
            targets := map (advanceTarget (runtime s) delta (fl (runtime s) (gameTime s + delta)))
                         (targets s @ arrivals delta s),
            namePopups := filter (\<lambda>p. \<not> lifetime p \<le> 0)
                            (map (decay (runtime s) delta) (namePopups s)),
            scene := (scene s \<union> set (map (\<lambda>t. mesh_id (mesh t)) (arrivals delta s)))
                       - passed_ids (runtime s) delta (targets s @ arrivals delta s)
                       - expired_ids (runtime s) delta (namePopups s),
            nextId := nextId s, pending := pending s, requests := requests s\<rparr>)"
    using False unfolding update_unfold
    by (simp add: arrivals_def after_loops_def)
  moreover have "nextId s + length (arrivals delta s) \<le> nextId s"
    using False by (simp add: arrivals_def)
  ultimately show ?thesis by blast
next
  case True
  let ?s1 = "s\<lparr>gameTime := fl (runtime s) (gameTime s + delta),
               spawnTimer := fl (runtime s) (spawnTimer s + delta)\<rparr>"
  have pi: "playerIndex ?s1 < length (players ?s1)" using True by (simp add: spawning_def)
  obtain n pd rq where sp: "spawnTarget ?s1 =
           Inr (?s1\<lparr>playerIndex := Suc (playerIndex ?s1),
                  randomCalls := randomCalls ?s1 + 22,
                  targets := targets ?s1 @ [spawned_target ?s1],
                  scene := insert (nextId ?s1) (scene ?s1),
                  nextId := n, pending := pd, requests := rq\<rparr>)" and n: "nextId ?s1 < n"
    using spawnTarget_eq [OF pi] by blast
  have st: "spawned_target ?s1
      = spawned_target (s\<lparr>gameTime := fl (runtime s) (gameTime s + delta)\<rparr>)"
    by (simp add: spawned_target_def)
  have mid: "mesh_id (mesh (spawned_target (s\<lparr>gameTime := fl (runtime s) (gameTime s + delta)\<rparr>)))
      = nextId s"
    by (simp add: spawned_target_def Let_def)
  have "update delta s =
     Inr (s\<lparr>gameTime := fl (runtime s) (gameTime s + delta),
            spawnTimer := (if spawning delta s then 0 else fl (runtime s) (spawnTimer s + delta)),
            playerIndex := playerIndex s + length (arrivals delta s),
            randomCalls := randomCalls s + 22 * length (arrivals delta s),
            targets := map (advanceTarget (runtime s) delta (fl (runtime s) (gameTime s + delta)))
                         (targets s @ arrivals delta s),
            namePopups := filter (\<lambda>p. \<not> lifetime p \<le> 0)
                            (map (decay (runtime s) delta) (namePopups s)),
            scene := (scene s \<union> set (map (\<lambda>t. mesh_id (mesh t)) (arrivals delta s)))
                       - passed_ids (runtime s) delta (targets s @ arrivals delta s)
                       - expired_ids (runtime s) delta (namePopups s),
            nextId := n, pending := pd, requests := rq\<rparr>)"
    using True unfolding update_unfold sp
    by (simp add: arrivals_def after_loops_def st mid)
  moreover have "nextId s + length (arrivals delta s) \<le> n"
    using n True by (simp add: arrivals_def)
  ultimately show ?thesis by blast
qed

section \<open>What one call of update does\<close>

lemma update_fields:
  "\<exists>s'. update delta s = Inr s'
     \<and> players s' = players s \<and> spawnInterval s' = spawnInterval s
     \<and> avatarCache s' = avatarCache s \<and> random s' = random s \<and> runtime s' = runtime s
     \<and> gameTime s' = fl (runtime s) (gameTime s + delta)
     \<and> spawnTimer s' = (if spawning delta s then 0 else fl (runtime s) (spawnTimer s + delta))
     \<and> playerIndex s' = playerIndex s + length (arrivals delta s)
     \<and> targets s' = map (advanceTarget (runtime s) delta (fl (runtime s) (gameTime s + delta)))
                      (targets s @ arrivals delta s)
     \<and> namePopups s' = filter (\<lambda>p. \<not> lifetime p \<le> 0)
                         (map (decay (runtime s) delta) (namePopups s))
     \<and> scene s' = (scene s \<union> set (map (\<lambda>t. mesh_id (mesh t)) (arrivals delta s)))
                       - passed_ids (runtime s) delta (targets s @ arrivals delta s)
                       - expired_ids (runtime s) delta (namePopups s)
     \<and> nextId s + length (arrivals delta s) \<le> nextId s'"
proof -
  obtain n pd rq where u: "update delta s =
     Inr (s\<lparr>gameTime := fl (runtime s) (gameTime s + delta),
            spawnTimer := (if spawning delta s then 0 else fl (runtime s) (spawnTimer s + delta)),
            playerIndex := playerIndex s + length (arrivals delta s),
            randomCalls := randomCalls s + 22 * length (arrivals delta s),
            targets := map (advanceTarget (runtime s) delta (fl (runtime s) (gameTime s + delta)))
                         (targets s @ arrivals delta s),
            namePopups := filter (\<lambda>p. \<not> lifetime p \<le> 0)
                            (map (decay (runtime s) delta) (namePopups s)),
            scene := (scene s \<union> set (map (\<lambda>t. mesh_id (mesh t)) (arrivals delta s)))
                       - passed_ids (runtime s) delta (targets s @ arrivals delta s)
                       - expired_ids (runtime s) delta (namePopups s),
            nextId := n, pending := pd, requests := rq\<rparr>)" and n: "nextId s + length (arrivals delta s) \<le> n"
    using update_eq by blast
  show ?thesis unfolding u using n by (intro exI conjI) (rule refl, simp_all)
qed

lemma length_arrivals: "length (arrivals delta s) = (if spawning delta s then 1 else 0)"
  by (simp add: arrivals_def)

lemma advances_spawns:
  "playerIndex s + crossings (runtime s) (spawnInterval s) (spawnTimer s) ds \<le> length (players s)
   \<Longrightarrow>
   \<exists>s'. advances ds s = Inr s'
      \<and> players s' = players s \<and> spawnInterval s' = spawnInterval s \<and> runtime s' = runtime s
      \<and> length (targets s')
          = length (targets s) + crossings (runtime s) (spawnInterval s) (spawnTimer s) ds
      \<and> playerIndex s'
          = playerIndex s + crossings (runtime s) (spawnInterval s) (spawnTimer s) ds"
proof (induction ds arbitrary: s)
  case Nil
  then show ?case by simp
next
  case (Cons d ds)
  let ?R = "runtime s"
  obtain s1 where u: "update d s = Inr s1"
      and f: "players s1 = players s" "spawnInterval s1 = spawnInterval s" "runtime s1 = ?R"
        "spawnTimer s1 = (if spawning d s then 0 else fl ?R (spawnTimer s + d))"
        "playerIndex s1 = playerIndex s + length (arrivals d s)"
        "targets s1 = map (advanceTarget ?R d (fl ?R (gameTime s + d))) (targets s @ arrivals d s)"
    using update_fields [of d s] by blast
  show ?case
  proof (cases "fl ?R (spawnTimer s + d) \<ge> spawnInterval s")
    case True
    then have c: "crossings ?R (spawnInterval s) (spawnTimer s) (d # ds)
        = Suc (crossings ?R (spawnInterval s) 0 ds)" by simp
    then have sp: "spawning d s" using Cons.prems True by (simp add: spawning_def)
    have "playerIndex s1 + crossings (runtime s1) (spawnInterval s1) (spawnTimer s1) ds
        \<le> length (players s1)"
      using Cons.prems c sp f by (simp add: length_arrivals)
    from Cons.IH [OF this] show ?thesis using u f sp c by (simp add: length_arrivals)
  next
    case False
    then have c: "crossings ?R (spawnInterval s) (spawnTimer s) (d # ds)
        = crossings ?R (spawnInterval s) (fl ?R (spawnTimer s + d)) ds" by simp
    have sp: "\<not> spawning d s" using False by (simp add: spawning_def)
    have "playerIndex s1 + crossings (runtime s1) (spawnInterval s1) (spawnTimer s1) ds
        \<le> length (players s1)"
      using Cons.prems c sp f by (simp add: length_arrivals)
    from Cons.IH [OF this] show ?thesis using u f sp c by (simp add: length_arrivals)
  qed
qed


lemma nth_advanced:
  "i < length (targets s) \<Longrightarrow>
   map (advanceTarget R delta gt) (targets s @ arrivals delta s) ! i
     = advanceTarget R delta gt (targets s ! i)"
  by (simp add: nth_append)

lemma passed_ids_mem:
  "i < length ts \<Longrightarrow> passed R delta (ts ! i)
   \<Longrightarrow> mesh_id (mesh (ts ! i)) \<in> passed_ids R delta (ts @ us)"
  by (auto simp add: passed_ids_def)

lemma alive_advanceTarget:
  "alive (advanceTarget R delta gt t) = (alive t \<and> \<not> passed R delta t)"
  by (simp add: advanceTarget_def moved_def retired_def passed_def)

lemma count_alive_advance:
  "length (filter alive (map (advanceTarget R delta gt) ts)) + length (filter (passed R delta) ts)
     = length (filter alive ts)"
  by (induction ts) (auto simp add: alive_advanceTarget passed_def)

lemma fold_loadAvatar_frame:
  "\<exists>n pd rq. fold (\<lambda>p t. snd (loadAvatar (profilePicture p) t)) ps s
      = s\<lparr>nextId := n, pending := pd, requests := rq\<rparr> \<and> nextId s \<le> n"
proof (induction ps arbitrary: s)
  case Nil
  have "s = s\<lparr>nextId := nextId s, pending := pending s, requests := requests s\<rparr>" by simp
  then show ?case by (metis fold_simps(1) order_refl)
next
  case (Cons p ps)
  obtain n pd rq where a: "snd (loadAvatar (profilePicture p) s)
      = s\<lparr>nextId := n, pending := pd, requests := rq\<rparr>" and n: "nextId s \<le> n"
    using loadAvatar_frame by blast
  obtain n' pd' rq' where b: "fold (\<lambda>p t. snd (loadAvatar (profilePicture p) t)) ps
        (s\<lparr>nextId := n, pending := pd, requests := rq\<rparr>)
      = s\<lparr>nextId := n, pending := pd, requests := rq\<rparr>\<lparr>nextId := n', pending := pd', requests := rq'\<rparr>"
      and n': "nextId (s\<lparr>nextId := n, pending := pd, requests := rq\<rparr>) \<le> n'"
    using Cons.IH by blast
  have "fold (\<lambda>p t. snd (loadAvatar (profilePicture p) t)) (p # ps) s
      = s\<lparr>nextId := n', pending := pd', requests := rq'\<rparr>"
    by (simp add: a b)
  moreover have "nextId s \<le> n'" using n n' by simp
  ultimately show ?case by blast
qed

lemma start_setPlayers:
  "\<exists>n pd rq. start (setPlayers ps s) =
     s\<lparr>players := ps, targets := [], namePopups := [], playerIndex := 0, spawnTimer := 0,
       gameTime := 0, nextId := n, pending := pd, requests := rq\<rparr>"
proof -
  obtain n pd rq where "fold (\<lambda>p t. snd (loadAvatar (profilePicture p) t)) (take 50 ps)
      (s\<lparr>players := ps\<rparr>) = s\<lparr>players := ps\<rparr>\<lparr>nextId := n, pending := pd, requests := rq\<rparr>"
    using fold_loadAvatar_frame by blast
  then have "start (setPlayers ps s) =
     s\<lparr>players := ps, targets := [], namePopups := [], playerIndex := 0, spawnTimer := 0,
       gameTime := 0, nextId := n, pending := pd, requests := rq\<rparr>"
    by (simp add: start_def setPlayers_def preloadAvatars_def)
  then show ?thesis by blast
qed

section \<open>An invariant of the reachable pools\<close>

lemma mesh_id_advanceTarget: "mesh_id (mesh (advanceTarget R delta gt t)) = mesh_id (mesh t)"
  by (simp add: advanceTarget_def moved_def retired_def)

lemma ids_allocated_setPlayers: "ids_allocated s \<Longrightarrow> ids_allocated (setPlayers ps s)"
proof -
  assume a: "ids_allocated s"
  obtain n pd rq where f: "fold (\<lambda>p t. snd (loadAvatar (profilePicture p) t)) (take 50 ps)
      (s\<lparr>players := ps\<rparr>) = s\<lparr>players := ps\<rparr>\<lparr>nextId := n, pending := pd, requests := rq\<rparr>"
      and n: "nextId (s\<lparr>players := ps\<rparr>) \<le> n"
    using fold_loadAvatar_frame by blast
  show ?thesis
    using a n unfolding setPlayers_def preloadAvatars_def
    by (simp add: f) (fastforce simp add: ids_allocated_def)
qed

lemma ids_allocated_update:
  assumes "ids_allocated s" and "update delta s = Inr s'"
  shows "ids_allocated s'"
proof -
  obtain s'' where u: "update delta s = Inr s''"
      and t: "targets s'' = map (advanceTarget (runtime s) delta (fl (runtime s) (gameTime s + delta)))
                 (targets s @ arrivals delta s)"
      and n: "nextId s + length (arrivals delta s) \<le> nextId s''"
    using update_fields [of delta s] by blast
  have eq: "s'' = s'" using u assms(2) by simp
  have old: "\<forall>t \<in> set (targets s). mesh_id (mesh t) < nextId s''"
    using assms(1) n by (fastforce simp add: ids_allocated_def)
  have new: "\<forall>t \<in> set (arrivals delta s). mesh_id (mesh t) < nextId s''"
    using n by (auto simp add: arrivals_def spawned_target_def Let_def split: if_splits)
  show ?thesis
    unfolding eq [symmetric] ids_allocated_def t using old new
    by (auto simp add: mesh_id_advanceTarget)
qed

lemma ids_allocated_checkHit: "ids_allocated s \<Longrightarrow> ids_allocated (fst (checkHit pos c s))"
proof -
  assume a: "ids_allocated s"
  from checkHit_cases [of pos c s]
  consider "checkHit pos c s = (s, None)"
    | k where "k < length (targets s)" "fst (checkHit pos c s) = removeTarget k True s"
    by auto
  then show ?thesis
  proof cases
    case 1
    then show ?thesis using a by simp
  next
    case 2
    have "mesh_id (mesh t) < Suc (nextId s)"
      if "t \<in> set ((targets s)[k := retired (targets s ! k)])" for t
    proof -
      from that obtain j where j: "j < length (targets s)"
          "t = (targets s)[k := retired (targets s ! k)] ! j"
        by (auto simp add: in_set_conv_nth)
      have "mesh_id (mesh t) = mesh_id (mesh (targets s ! j))"
        using j 2(1) by (cases "j = k") (simp_all add: retired_def)
      moreover have "targets s ! j \<in> set (targets s)" using j by simp
      ultimately show ?thesis using a by (fastforce simp add: ids_allocated_def)
    qed
    then show ?thesis by (simp add: 2(2) removeTarget_hit ids_allocated_def)
  qed
qed

lemma reachable_ids_allocated: "reachable s \<Longrightarrow> ids_allocated s"
proof (induction rule: reachable.induct)
  case (constructed sc n rnd R)
  then show ?case by (simp add: ids_allocated_def new_PlayerTargets_def)
next
  case (after_setPlayers s ps)
  then show ?case by (simp add: ids_allocated_setPlayers)
next
  case (after_start s)
  then show ?case by (simp add: ids_allocated_def start_def)
next
  case (after_update s delta s')
  then show ?case using ids_allocated_update by blast
next
  case (after_checkHit s pos c)
  then show ?case by (simp add: ids_allocated_checkHit)
next
  case (after_onload s img url)
  then show ?case by (simp add: ids_allocated_def img_onload_def)
next
  case (after_onerror s img url)
  then show ?case by (simp add: ids_allocated_def img_onerror_def)
qed

section \<open>Properties of the hit resolver\<close>



text \<open>
  Claim C10. When the proximity resolver returns null, the pool is exactly the pool before the
  call: no target, popup, visual, cursor or timer has changed.
\<close>

theorem checkHit_null_unchanged:
  assumes "snd (checkHit pos shotColor s) = None"
  shows "fst (checkHit pos shotColor s) = s"
  using checkHit_cases [of pos shotColor s] assms by auto

theorem checkHit_null_unchanged_witness:
  "snd (checkHit (Vector3 3 5 9) Red
          (pool_with [alice] [live_target 0 alice (Vector3 1 2 3) (Vector3 0 0 16)])) = None
   \<and> fst (checkHit (Vector3 3 5 9) Red
          (pool_with [alice] [live_target 0 alice (Vector3 1 2 3) (Vector3 0 0 16)]))
     = pool_with [alice] [live_target 0 alice (Vector3 1 2 3) (Vector3 0 0 16)]"
proof -
  have h: "snd (checkHit (Vector3 3 5 9) Red
          (pool_with [alice] [live_target 0 alice (Vector3 1 2 3) (Vector3 0 0 16)])) = None"
    by (simp add: checkHit_def checkHit_from_step checkHit_from_end hits_exact
        pool_with_def live_target_def new_PlayerTargets_def)
  from checkHit_null_unchanged [OF h] h show ?thesis by simp
qed

text \<open>
  Claim C3. Whenever the proximity resolver matches a target, it retires that target (dead,
  material disposed, visual out of the render graph) whether or not the colour of the query
  matched; it returns the player of the target with \<open>correct\<close> equal to (colour of the
  target = colour of the query); and the popup it spawns is drawn with the colour table entry
  of the target's own colour, which is not the entry of the query's colour when they differ.
  The pool is one whose target sprites carry allocated identities, as every reachable pool
  does (\<open>reachable_ids_allocated\<close>).
\<close>

theorem checkHit_match_retires_target:
  assumes hit: "checkHit pos shotColor s = (s', Some (p, correct))"
      and fresh: "ids_allocated s"
  shows "\<exists>k < length (targets s).
           alive (targets s ! k)
         \<and> p = player (targets s ! k)
         \<and> correct = (color (player (targets s ! k)) = shotColor)
         \<and> \<not> alive (targets s' ! k)
         \<and> material_disposed (mesh (targets s' ! k))
         \<and> mesh_id (mesh (targets s' ! k)) = mesh_id (mesh (targets s ! k))
         \<and> mesh_id (mesh (targets s' ! k)) \<notin> scene s'
         \<and> (\<exists>q. namePopups s' = namePopups s @ [q]
                \<and> palette (popup_mesh q) = COLORS (color (player (targets s ! k)))
                \<and> position (popup_mesh q) = position (mesh (targets s ! k))
                \<and> mesh_id (popup_mesh q) \<in> scene s'
                \<and> (\<not> correct \<longrightarrow> palette (popup_mesh q) \<noteq> COLORS shotColor))"
proof -
  from checkHit_cases [of pos shotColor s] hit
  obtain k where k: "k < length (targets s)" "hits (runtime s) pos (targets s ! k)"
      and s': "s' = removeTarget k True s"
      and r: "p = player (targets s ! k)" "correct = (color (player (targets s ! k)) = shotColor)"
    by auto
  let ?t = "targets s ! k"
  let ?q = "popup_for (runtime s) (nextId s) (player ?t) (position (mesh ?t)) (random s)
              (randomCalls s + 16)"
  have al: "alive ?t" using k(2) by (simp add: hits_def)
  have ts: "targets s' = (targets s)[k := retired ?t]"
    and ps: "namePopups s' = namePopups s @ [?q]"
    and sc: "scene s' = insert (nextId s) (scene s - {mesh_id (mesh ?t)})"
    by (simp_all add: s' removeTarget_hit)
  have nth: "targets s' ! k = retired ?t" using ts k(1) by simp
  have "?t \<in> set (targets s)" using k(1) by simp
  then have ne: "mesh_id (mesh ?t) \<noteq> nextId s"
    using fresh by (fastforce simp add: ids_allocated_def)
  have q: "palette (popup_mesh ?q) = COLORS (color (player ?t))"
      "position (popup_mesh ?q) = position (mesh ?t)"
      "mesh_id (popup_mesh ?q) = nextId s"
    by (simp_all add: popup_for_def)
  have "\<not> alive (targets s' ! k)" "material_disposed (mesh (targets s' ! k))"
      "mesh_id (mesh (targets s' ! k)) = mesh_id (mesh ?t)"
    by (simp_all add: nth retired_def)
  moreover have "mesh_id (mesh (targets s' ! k)) \<notin> scene s'"
    using ne by (simp add: nth retired_def sc)
  moreover have "\<exists>q. namePopups s' = namePopups s @ [q]
                \<and> palette (popup_mesh q) = COLORS (color (player ?t))
                \<and> position (popup_mesh q) = position (mesh ?t)
                \<and> mesh_id (popup_mesh q) \<in> scene s'
                \<and> (\<not> correct \<longrightarrow> palette (popup_mesh q) \<noteq> COLORS shotColor)"
    using ps q r(2) by (intro exI [of _ ?q]) (simp add: sc COLORS_inj)
  ultimately show ?thesis using k(1) al r by blast
qed

theorem checkHit_match_retires_target_witness:
  "snd (checkHit (Vector3 1.5 3 4) Blue
          (pool_with [alice] [live_target 0 alice (Vector3 1 2 3) (Vector3 0 0 16)]))
     = Some (alice, False)
   \<and> \<not> alive (targets (fst (checkHit (Vector3 1.5 3 4) Blue
          (pool_with [alice] [live_target 0 alice (Vector3 1 2 3) (Vector3 0 0 16)]))) ! 0)
   \<and> 0 \<notin> scene (fst (checkHit (Vector3 1.5 3 4) Blue
          (pool_with [alice] [live_target 0 alice (Vector3 1 2 3) (Vector3 0 0 16)])))
   \<and> map (\<lambda>q. palette (popup_mesh q)) (namePopups (fst (checkHit (Vector3 1.5 3 4) Blue
          (pool_with [alice] [live_target 0 alice (Vector3 1 2 3) (Vector3 0 0 16)]))))
      = [COLORS Red]"
proof -
  let ?P = "pool_with [alice] [live_target 0 alice (Vector3 1 2 3) (Vector3 0 0 16)]"
  let ?c = "checkHit (Vector3 1.5 3 4) Blue ?P"
  have r: "snd ?c = Some (alice, False)"
    by (simp add: checkHit_def checkHit_from_step hits_exact
        pool_with_def live_target_def new_PlayerTargets_def alice_def)
  then have h: "?c = (fst ?c, Some (alice, False))" by (metis prod.collapse)
  have f: "ids_allocated ?P"
    by (simp add: ids_allocated_def pool_with_def live_target_def new_PlayerTargets_def)
  have len: "length (targets ?P) = 1" "namePopups ?P = []"
      "mesh_id (mesh (targets ?P ! 0)) = 0" "color (player (targets ?P ! 0)) = Red"
    by (simp_all add: pool_with_def live_target_def new_PlayerTargets_def alice_def)
  from checkHit_match_retires_target [OF h f] obtain k q where "k < length (targets ?P)"
      "\<not> alive (targets (fst ?c) ! k)"
      "mesh_id (mesh (targets (fst ?c) ! k)) = mesh_id (mesh (targets ?P ! k))"
      "mesh_id (mesh (targets (fst ?c) ! k)) \<notin> scene (fst ?c)"
      "namePopups (fst ?c) = namePopups ?P @ [q]"
      "palette (popup_mesh q) = COLORS (color (player (targets ?P ! k)))"
    by blast
  then show ?thesis using r len by simp
qed

text \<open>
  Claim C4. One resolver call retires at most one target: with a null result nothing changes,
  and with a match exactly one target goes from alive to dead (the number of live targets drops
  by one) while every other target is left as it was. A dead target is never touched by a
  resolver call, so the target retired by one call cannot be matched or retired by a later
  call, whatever its query: the target matched by the second call was alive before both.
\<close>

theorem checkHit_retires_at_most_one:
  assumes first: "checkHit pos c s = (s', r)"
      and second: "checkHit pos2 c2 s' = (s'', r2)"
  shows "length (targets s') = length (targets s)
    \<and> (r = None \<longrightarrow> s' = s)
    \<and> (r \<noteq> None \<longrightarrow>
           (\<exists>k < length (targets s). alive (targets s ! k) \<and> \<not> alive (targets s' ! k)
              \<and> fst (the r) = player (targets s ! k)
              \<and> (\<forall>j < length (targets s). j \<noteq> k \<longrightarrow> targets s' ! j = targets s ! j))
           \<and> Suc (length (getAliveTargets s')) = length (getAliveTargets s))
    \<and> (\<forall>j < length (targets s). \<not> alive (targets s ! j) \<longrightarrow> targets s' ! j = targets s ! j)
    \<and> (\<forall>j < length (targets s). \<not> alive (targets s' ! j) \<longrightarrow>
          targets s'' ! j = targets s' ! j)
    \<and> (r2 \<noteq> None \<longrightarrow>
          (\<exists>k2 < length (targets s). alive (targets s ! k2) \<and> alive (targets s' ! k2)
             \<and> \<not> alive (targets s'' ! k2) \<and> fst (the r2) = player (targets s' ! k2)))"
proof -
  note a = checkHit_effect [OF first] and b = checkHit_effect [OF second]
  have len: "length (targets s') = length (targets s)" using a by blast
  have alive_back: "alive (targets s ! j)" if "j < length (targets s)" "alive (targets s' ! j)" for j
    using a that by metis
  have "r2 \<noteq> None \<longrightarrow>
          (\<exists>k2 < length (targets s). alive (targets s ! k2) \<and> alive (targets s' ! k2)
             \<and> \<not> alive (targets s'' ! k2) \<and> fst (the r2) = player (targets s' ! k2))"
    using b alive_back unfolding len by blast
  moreover have "\<forall>j < length (targets s). \<not> alive (targets s' ! j) \<longrightarrow>
          targets s'' ! j = targets s' ! j"
    using b unfolding len by blast
  moreover have "r = None \<longrightarrow> s' = s" using a by blast
  ultimately show ?thesis using a by blast
qed

theorem checkHit_retires_at_most_one_witness:
  "snd (checkHit (Vector3 1.5 3 4) Red
          (pool_with [alice, bob]
             [live_target 0 alice (Vector3 1 2 3) (Vector3 0 0 16),
              live_target 1 bob (Vector3 1.5 3 3.5) (Vector3 0 0 16)])) = Some (alice, True)
   \<and> snd (checkHit (Vector3 1.5 3 4) Red
        (fst (checkHit (Vector3 1.5 3 4) Red
          (pool_with [alice, bob]
             [live_target 0 alice (Vector3 1 2 3) (Vector3 0 0 16),
              live_target 1 bob (Vector3 1.5 3 3.5) (Vector3 0 0 16)])))) = Some (bob, False)
   \<and> length (getAliveTargets (fst (checkHit (Vector3 1.5 3 4) Red
          (pool_with [alice, bob]
             [live_target 0 alice (Vector3 1 2 3) (Vector3 0 0 16),
              live_target 1 bob (Vector3 1.5 3 3.5) (Vector3 0 0 16)])))) = 1"
proof -
  let ?P = "pool_with [alice, bob]
             [live_target 0 alice (Vector3 1 2 3) (Vector3 0 0 16),
              live_target 1 bob (Vector3 1.5 3 3.5) (Vector3 0 0 16)]"
  let ?c1 = "checkHit (Vector3 1.5 3 4) Red ?P"
  let ?c2 = "checkHit (Vector3 1.5 3 4) Red (fst ?c1)"
  have c1: "?c1 = (removeTarget 0 True ?P, Some (alice, True))"
    by (simp add: checkHit_def checkHit_from_step hits_exact
        pool_with_def live_target_def new_PlayerTargets_def alice_def)
  have c2: "snd ?c2 = Some (bob, False)"
    by (simp add: c1 checkHit_def checkHit_from_step hits_exact removeTarget_hit retired_def
        pool_with_def live_target_def new_PlayerTargets_def bob_def)
  have h1: "?c1 = (fst ?c1, Some (alice, True))" using c1 by simp
  have h2: "?c2 = (fst ?c2, Some (bob, False))" using c2 by (metis prod.collapse)
  have n: "length (getAliveTargets ?P) = 2"
    by (simp add: getAliveTargets_def pool_with_def live_target_def new_PlayerTargets_def)
  from checkHit_retires_at_most_one [OF h1 h2]
  have "Suc (length (getAliveTargets (fst ?c1))) = length (getAliveTargets ?P)"
    by simp
  then show ?thesis using n c1 c2 by simp
qed

section \<open>Properties of start and of the avatar cache\<close>

text \<open>
  Claim C5. \<open>start()\<close> is idempotent and resets the pool from any state: no targets, no
  popups, cursor 0, spawn timer 0. The visuals of the targets and popups it discards are not
  removed: \<open>start()\<close> never touches the render graph, so a sprite that was in the scene
  before the call is still in it afterwards (here the sprite 0 of a live target). In the
  normal flow: after \<open>setPlayers\<close> with one player, \<open>start\<close> and \<open>update(0.5)\<close>, one
  target is alive and its sprite 1 is in the scene; a second \<open>start\<close> empties the array
  of targets and leaves sprite 1 in the scene.
\<close>

theorem start_resets_pool_keeps_scene:
  "start (start s) = start s
   \<and> targets (start s) = [] \<and> namePopups (start s) = [] \<and> getAliveTargets (start s) = []
   \<and> playerIndex (start s) = 0 \<and> spawnTimer (start s) = 0
   \<and> scene (start s) = scene s
   \<and> getAliveTargets (pool_with [alice] [live_target 0 alice (Vector3 0 0 0) (Vector3 0 0 20)])
        = [live_target 0 alice (Vector3 0 0 0) (Vector3 0 0 20)]
   \<and> 0 \<in> scene (start (pool_with [alice]
                          [live_target 0 alice (Vector3 0 0 0) (Vector3 0 0 20)]))
   \<and> map_sum id (\<lambda>s. (length (getAliveTargets s), scene s, targets (start s), scene (start s)))
        (update 0.5 (start (setPlayers [alice] (new_PlayerTargets {} 0 (\<lambda>n. 0) exact_runtime))))
      = Inr (1, {1}, [], {1})"
proof -
  have general: "start (start s) = start s
   \<and> targets (start s) = [] \<and> namePopups (start s) = [] \<and> getAliveTargets (start s) = []
   \<and> playerIndex (start s) = 0 \<and> spawnTimer (start s) = 0
   \<and> scene (start s) = scene s
   \<and> getAliveTargets (pool_with [alice] [live_target 0 alice (Vector3 0 0 0) (Vector3 0 0 20)])
        = [live_target 0 alice (Vector3 0 0 0) (Vector3 0 0 20)]
   \<and> 0 \<in> scene (start (pool_with [alice]
                          [live_target 0 alice (Vector3 0 0 0) (Vector3 0 0 20)]))"
    by (simp add: start_def getAliveTargets_def pool_with_def new_PlayerTargets_def
        live_target_def)
  have flow: "map_sum id
        (\<lambda>s. (length (getAliveTargets s), scene s, targets (start s), scene (start s)))
        (update 0.5 (start (setPlayers [alice] (new_PlayerTargets {} 0 (\<lambda>n. 0) exact_runtime))))
      = Inr (1, {1}, [], {1})"
  proof -
    let ?R = "exact_runtime"
    let ?s0 = "start (setPlayers [alice] (new_PlayerTargets {} 0 (\<lambda>n. 0) ?R))"
    have s0: "?s0 = (new_PlayerTargets {} 0 (\<lambda>n. 0) ?R)
        \<lparr>players := [alice], nextId := 1,
         pending := [(0, profilePicture alice)],
         requests := [profilePicture alice]\<rparr>"
      by (simp add: start_def setPlayers_def preloadAvatars_def loadAvatar_def
          new_PlayerTargets_def Let_def)
    have rt: "runtime ?s0 = ?R" unfolding s0 by (simp add: new_PlayerTargets_def)
    have sp: "spawning (1/2) ?s0"
      unfolding s0 by (simp add: spawning_def new_PlayerTargets_def exact_runtime_def)
    obtain s' where u: "update (1/2) ?s0 = Inr s'"
        and t: "targets s' = map (advanceTarget (runtime ?s0) (1/2)
                                    (fl (runtime ?s0) (gameTime ?s0 + (1/2))))
                               (targets ?s0 @ arrivals (1/2) ?s0)"
        and sc: "scene s' = (scene ?s0 \<union> set (map (\<lambda>t. mesh_id (mesh t)) (arrivals (1/2) ?s0)))
                         - passed_ids (runtime ?s0) (1/2) (targets ?s0 @ arrivals (1/2) ?s0)
                         - expired_ids (runtime ?s0) (1/2) (namePopups ?s0)"
      using update_fields [of "1/2" ?s0] by blast
    let ?t = "spawned_target (?s0\<lparr>gameTime := fl ?R (gameTime ?s0 + (1/2))\<rparr>)"
    have ar: "arrivals (1/2) ?s0 = [?t]"
      using sp by (simp add: arrivals_def rt)
    have f: "targets ?s0 = []" "namePopups ?s0 = []" "scene ?s0 = {}"
      unfolding s0 by (simp_all add: new_PlayerTargets_def)
    have st: "alive ?t" "\<not> passed ?R (1/2) ?t" "mesh_id (mesh ?t) = 1"
      unfolding s0
      by (simp_all add: spawned_target_def passed_def Let_def new_PlayerTargets_def
          exact_runtime_def)
    have "length (getAliveTargets s') = 1"
      by (simp add: getAliveTargets_def t ar f alive_advanceTarget st rt)
    moreover have "scene s' = {1}"
      by (simp add: sc ar f st passed_ids_def expired_ids_def rt)
    moreover have u': "update 0.5 ?s0 = Inr s'" using u by simp
    ultimately show ?thesis unfolding u' by (simp add: start_def)
  qed
  show ?thesis using general flow by blast
qed

text \<open>
  Claim C8, as stated: \<open>loadAvatar\<close> never issues two network requests for one URL, and
  duplicate calls resolve to the same image. Two calls for one URL before the first image has
  loaded send two requests and wait on two different images. This happens in the normal flow:
  \<open>setPlayers\<close> requests the avatars of both players, and the first spawn requests the
  avatar of the second player again, since no image has loaded yet.
\<close>

theorem loadAvatar_two_requests_counterexample:
  "requests (snd (loadAvatar ''a.png'' (snd (loadAvatar ''a.png''
      (new_PlayerTargets {} 0 (\<lambda>n. 0) exact_runtime))))) = [''a.png'', ''a.png'']
   \<and> fst (loadAvatar ''a.png'' (new_PlayerTargets {} 0 (\<lambda>n. 0) exact_runtime)) = Awaiting 0
   \<and> fst (loadAvatar ''a.png'' (snd (loadAvatar ''a.png''
      (new_PlayerTargets {} 0 (\<lambda>n. 0) exact_runtime)))) = Awaiting 1
   \<and> map_sum id requests
        (update 0.5 (start (setPlayers [alice, bob]
           (new_PlayerTargets {} 0 (\<lambda>n. 0) exact_runtime))))
      = Inr [profilePicture alice, profilePicture bob, profilePicture bob]"
proof -
  let ?s0 = "start (setPlayers [alice, bob] (new_PlayerTargets {} 0 (\<lambda>n. 0) exact_runtime))"
  have s0: "?s0 = (new_PlayerTargets {} 0 (\<lambda>n. 0) exact_runtime)
      \<lparr>players := [alice, bob], nextId := 2,
       pending := [(0, profilePicture alice), (1, profilePicture bob)],
       requests := [profilePicture alice, profilePicture bob]\<rparr>"
    by (simp add: start_def setPlayers_def preloadAvatars_def loadAvatar_def
        new_PlayerTargets_def Let_def)
  have rt: "runtime ?s0 = exact_runtime" unfolding s0 by (simp add: new_PlayerTargets_def)
  have sp: "spawning 0.5 ?s0"
    unfolding s0 by (simp add: spawning_def new_PlayerTargets_def exact_runtime_def)
  have "map_sum id requests (spawnTarget (?s0\<lparr>gameTime := fl (runtime ?s0) (gameTime ?s0 + 0.5),
                                spawnTimer := fl (runtime ?s0) (spawnTimer ?s0 + 0.5)\<rparr>))
      = Inr [profilePicture alice, profilePicture bob, profilePicture bob]"
    unfolding s0
    by (simp add: spawnTarget_def Math_random_def Let_def loadAvatar_def new_PlayerTargets_def
        randomCalls_new_texture_material_sprite)
  then have flow: "map_sum id requests (update 0.5 ?s0)
      = Inr [profilePicture alice, profilePicture bob, profilePicture bob]"
    using sp by (auto simp add: update_unfold after_loops_def split: sum.splits)
  have direct: "requests (snd (loadAvatar ''a.png'' (snd (loadAvatar ''a.png''
      (new_PlayerTargets {} 0 (\<lambda>n. 0) exact_runtime))))) = [''a.png'', ''a.png'']
   \<and> fst (loadAvatar ''a.png'' (new_PlayerTargets {} 0 (\<lambda>n. 0) exact_runtime)) = Awaiting 0
   \<and> fst (loadAvatar ''a.png'' (snd (loadAvatar ''a.png''
      (new_PlayerTargets {} 0 (\<lambda>n. 0) exact_runtime)))) = Awaiting 1"
    by (simp add: loadAvatar_def new_PlayerTargets_def Let_def)
  show ?thesis using direct flow by blast
qed

text \<open>
  Claim C8, amended. The cache holds finished loads only. With the URL in the cache a call
  resolves at once to the cached image and changes nothing, no request included; this is the
  case for every call made after the \<open>onload\<close> of an image for that URL. With the URL not
  in the cache a call creates a new image and sends its own request.
\<close>

theorem loadAvatar_cached_or_requests:
  "(avatarCache s url = Some img \<longrightarrow> loadAvatar url s = (Resolved img, s))
   \<and> (avatarCache s url = None \<longrightarrow>
        loadAvatar url s =
          (Awaiting (nextId s),
           s\<lparr>nextId := Suc (nextId s), pending := pending s @ [(nextId s, url)],
             requests := requests s @ [url]\<rparr>))
   \<and> loadAvatar url (snd (img_onload img url s)) = (Resolved img, snd (img_onload img url s))"
  by (simp add: loadAvatar_def img_onload_def Let_def)

theorem loadAvatar_cached_or_requests_witness:
  "loadAvatar ''a.png'' (new_PlayerTargets {} 0 (\<lambda>n. 0) exact_runtime) =
     (Awaiting 0,
      (new_PlayerTargets {} 0 (\<lambda>n. 0) exact_runtime)
        \<lparr>nextId := 1, pending := [(0, ''a.png'')], requests := [''a.png'']\<rparr>)
   \<and> loadAvatar ''a.png''
        (snd (img_onload 0 ''a.png''
           (snd (loadAvatar ''a.png'' (new_PlayerTargets {} 0 (\<lambda>n. 0) exact_runtime)))))
      = (Resolved 0,
         snd (img_onload 0 ''a.png''
           (snd (loadAvatar ''a.png'' (new_PlayerTargets {} 0 (\<lambda>n. 0) exact_runtime)))))
   \<and> requests (snd (loadAvatar ''a.png''
        (snd (img_onload 0 ''a.png''
           (snd (loadAvatar ''a.png'' (new_PlayerTargets {} 0 (\<lambda>n. 0) exact_runtime)))))))
      = [''a.png'']"
proof -
  let ?P = "new_PlayerTargets {} 0 (\<lambda>n. 0) exact_runtime"
  have n: "avatarCache ?P ''a.png'' = None" "nextId ?P = 0" "pending ?P = []" "requests ?P = []"
    by (simp_all add: new_PlayerTargets_def)
  from loadAvatar_cached_or_requests [of ?P "''a.png''" 0] n
  have a: "loadAvatar ''a.png'' ?P =
     (Awaiting 0, ?P\<lparr>nextId := 1, pending := [(0, ''a.png'')], requests := [''a.png'']\<rparr>)"
    by simp
  let ?Q = "snd (img_onload 0 ''a.png'' (snd (loadAvatar ''a.png'' ?P)))"
  from loadAvatar_cached_or_requests [of "snd (loadAvatar ''a.png'' ?P)" "''a.png''" 0]
  have b: "loadAvatar ''a.png'' ?Q = (Resolved 0, ?Q)" by simp
  have c: "requests ?Q = [''a.png'']" by (simp add: a img_onload_def)
  show ?thesis using a b c by simp
qed

section \<open>Properties of update\<close>



text \<open>
  Claim C6. For a live target, the position after \<open>update(delta)\<close> is the position before
  plus velocity times delta, in the arithmetic of the source: each coordinate is the rounded
  sum of the coordinate and the rounded product of the velocity component and the delta, which
  is the sum and the product over the reals whenever the rounding leaves these unchanged.
  Nothing else moves it: a dead target is left as it is, and the resolver changes neither
  position nor velocity. After the move the target is alive exactly when its depth is not
  beyond 5. The velocity of a target is the same after \<open>update\<close> and after \<open>checkHit\<close>.
\<close>

theorem update_integrates_position:
  assumes "i < length (targets s)"
  shows "\<exists>s'. update delta s = Inr s'
      \<and> i < length (targets s')
      \<and> velocity (targets s' ! i) = velocity (targets s ! i)
      \<and> (alive (targets s ! i) \<longrightarrow>
            position (mesh (targets s' ! i))
              = Vector3
                  (fl (runtime s) (vx (position (mesh (targets s ! i)))
                                   + fl (runtime s) (vx (velocity (targets s ! i)) * delta)))
                  (fl (runtime s) (vy (position (mesh (targets s ! i)))
                                   + fl (runtime s) (vy (velocity (targets s ! i)) * delta)))
                  (fl (runtime s) (vz (position (mesh (targets s ! i)))
                                   + fl (runtime s) (vz (velocity (targets s ! i)) * delta)))
          \<and> alive (targets s' ! i) = (\<not> vz (position (mesh (targets s' ! i))) > 5))
      \<and> (alive (targets s ! i)
           \<and> fl (runtime s) (vx (velocity (targets s ! i)) * delta)
               = vx (velocity (targets s ! i)) * delta
           \<and> fl (runtime s) (vy (velocity (targets s ! i)) * delta)
               = vy (velocity (targets s ! i)) * delta
           \<and> fl (runtime s) (vz (velocity (targets s ! i)) * delta)
               = vz (velocity (targets s ! i)) * delta
           \<and> fl (runtime s) (vx (position (mesh (targets s ! i)))
                               + vx (velocity (targets s ! i)) * delta)
               = vx (position (mesh (targets s ! i))) + vx (velocity (targets s ! i)) * delta
           \<and> fl (runtime s) (vy (position (mesh (targets s ! i)))
                               + vy (velocity (targets s ! i)) * delta)
               = vy (position (mesh (targets s ! i))) + vy (velocity (targets s ! i)) * delta
           \<and> fl (runtime s) (vz (position (mesh (targets s ! i)))
                               + vz (velocity (targets s ! i)) * delta)
               = vz (position (mesh (targets s ! i))) + vz (velocity (targets s ! i)) * delta
         \<longrightarrow> position (mesh (targets s' ! i))
              = Vector3
                  (vx (position (mesh (targets s ! i))) + vx (velocity (targets s ! i)) * delta)
                  (vy (position (mesh (targets s ! i))) + vy (velocity (targets s ! i)) * delta)
                  (vz (position (mesh (targets s ! i))) + vz (velocity (targets s ! i)) * delta))
      \<and> (\<not> alive (targets s ! i) \<longrightarrow> targets s' ! i = targets s ! i)
      \<and> velocity (targets (fst (checkHit pos c s)) ! i) = velocity (targets s ! i)
      \<and> position (mesh (targets (fst (checkHit pos c s)) ! i)) = position (mesh (targets s ! i))"
proof -
  let ?R = "runtime s"
  obtain s' where u: "update delta s = Inr s'"
      and t: "targets s' = map (advanceTarget ?R delta (fl ?R (gameTime s + delta)))
                             (targets s @ arrivals delta s)"
    using update_fields [of delta s] by blast
  have n: "targets s' ! i = advanceTarget ?R delta (fl ?R (gameTime s + delta)) (targets s ! i)"
    unfolding t using assms by (rule nth_advanced)
  have len: "i < length (targets s')" using assms by (simp add: t)
  have v: "velocity (targets s' ! i) = velocity (targets s ! i)"
    by (simp add: n advanceTarget_def moved_def retired_def)
  have p: "alive (targets s ! i) \<longrightarrow>
            position (mesh (targets s' ! i))
              = Vector3
                  (fl ?R (vx (position (mesh (targets s ! i)))
                          + fl ?R (vx (velocity (targets s ! i)) * delta)))
                  (fl ?R (vy (position (mesh (targets s ! i)))
                          + fl ?R (vy (velocity (targets s ! i)) * delta)))
                  (fl ?R (vz (position (mesh (targets s ! i)))
                          + fl ?R (vz (velocity (targets s ! i)) * delta)))
          \<and> alive (targets s' ! i) = (\<not> vz (position (mesh (targets s' ! i))) > 5)"
    by (simp add: n advanceTarget_def moved_def retired_def passed_def add_def multiplyScalar_def)
  have q: "alive (targets s ! i)
           \<and> fl ?R (vx (velocity (targets s ! i)) * delta)
               = vx (velocity (targets s ! i)) * delta
           \<and> fl ?R (vy (velocity (targets s ! i)) * delta)
               = vy (velocity (targets s ! i)) * delta
           \<and> fl ?R (vz (velocity (targets s ! i)) * delta)
               = vz (velocity (targets s ! i)) * delta
           \<and> fl ?R (vx (position (mesh (targets s ! i)))
                               + vx (velocity (targets s ! i)) * delta)
               = vx (position (mesh (targets s ! i))) + vx (velocity (targets s ! i)) * delta
           \<and> fl ?R (vy (position (mesh (targets s ! i)))
                               + vy (velocity (targets s ! i)) * delta)
               = vy (position (mesh (targets s ! i))) + vy (velocity (targets s ! i)) * delta
           \<and> fl ?R (vz (position (mesh (targets s ! i)))
                               + vz (velocity (targets s ! i)) * delta)
               = vz (position (mesh (targets s ! i))) + vz (velocity (targets s ! i)) * delta
         \<longrightarrow> position (mesh (targets s' ! i))
              = Vector3
                  (vx (position (mesh (targets s ! i))) + vx (velocity (targets s ! i)) * delta)
                  (vy (position (mesh (targets s ! i))) + vy (velocity (targets s ! i)) * delta)
                  (vz (position (mesh (targets s ! i))) + vz (velocity (targets s ! i)) * delta)"
    using p by simp
  have d: "\<not> alive (targets s ! i) \<longrightarrow> targets s' ! i = targets s ! i"
    by (simp add: n advanceTarget_def)
  have k: "velocity (targets (fst (checkHit pos c s)) ! i) = velocity (targets s ! i)"
      "position (mesh (targets (fst (checkHit pos c s)) ! i)) = position (mesh (targets s ! i))"
    using checkHit_keeps_motion [OF assms] by simp_all
  show ?thesis
    by (rule exI [of _ s']) (intro conjI; (rule u len v p q d k)?)
qed

theorem update_integrates_position_witness:
  "\<exists>s'. update 0.5 (pool_with [alice] [live_target 0 alice (Vector3 1 2 (- 50)) (Vector3 2 (- 3) 20)])
           = Inr s'
      \<and> position (mesh (targets s' ! 0)) = Vector3 2 0.5 (- 40)
      \<and> velocity (targets s' ! 0) = Vector3 2 (- 3) 20
      \<and> alive (targets s' ! 0)"
proof -
  let ?P = "pool_with [alice] [live_target 0 alice (Vector3 1 2 (- 50)) (Vector3 2 (- 3) 20)]"
  have f: "0 < length (targets ?P)" "alive (targets ?P ! 0)"
      "position (mesh (targets ?P ! 0)) = Vector3 1 2 (- 50)"
      "velocity (targets ?P ! 0) = Vector3 2 (- 3) 20"
      "fl (runtime ?P) = (\<lambda>x. x)"
    by (simp_all add: pool_with_def new_PlayerTargets_def live_target_def exact_runtime_def)
  from update_integrates_position [OF f(1), where delta = "0.5" and pos = "Vector3 0 0 0" and c = Red]
    f(2,3,4,5)
  show ?thesis
    by auto
qed

text \<open>
  Claim C7. A live target whose depth after the move of \<open>update(delta)\<close>, as the source
  computes it, is beyond 5 is retired as a miss: it is dead, its material is disposed, its
  sprite is out of the render graph, and no popup is created (the popups after the call are
  the surviving popups from before, decayed). When the call spawns nothing, the number of live
  targets drops by the number of targets that passed. Scenario: one live target just behind
  the boundary, at depth 4.875, with forward velocity 20 and no player left; after
  \<open>update(1)\<close> no target is alive and there is no popup.
\<close>

theorem update_retires_passed_target:
  assumes "i < length (targets s)" and "alive (targets s ! i)"
      and "fl (runtime s) (vz (position (mesh (targets s ! i)))
                           + fl (runtime s) (vz (velocity (targets s ! i)) * delta)) > 5"
  shows "\<exists>s'. update delta s = Inr s'
      \<and> vz (position (mesh (targets s' ! i)))
          = fl (runtime s) (vz (position (mesh (targets s ! i)))
                            + fl (runtime s) (vz (velocity (targets s ! i)) * delta))
      \<and> \<not> alive (targets s' ! i)
      \<and> material_disposed (mesh (targets s' ! i))
      \<and> mesh_id (mesh (targets s' ! i)) = mesh_id (mesh (targets s ! i))
      \<and> mesh_id (mesh (targets s' ! i)) \<notin> scene s'
      \<and> namePopups s' = filter (\<lambda>p. \<not> lifetime p \<le> 0)
                          (map (decay (runtime s) delta) (namePopups s))
      \<and> length (namePopups s') \<le> length (namePopups s)
      \<and> (\<not> (fl (runtime s) (spawnTimer s + delta) \<ge> spawnInterval s
             \<and> playerIndex s < length (players s)) \<longrightarrow>
           length (getAliveTargets s')
             + length (filter (\<lambda>t. alive t
                                 \<and> fl (runtime s) (vz (position (mesh t))
                                                   + fl (runtime s) (vz (velocity t) * delta)) > 5)
                         (targets s))
           = length (getAliveTargets s))"
proof -
  let ?R = "runtime s"
  obtain s' where u: "update delta s = Inr s'"
      and t: "targets s' = map (advanceTarget ?R delta (fl ?R (gameTime s + delta)))
                             (targets s @ arrivals delta s)"
      and p: "namePopups s' = filter (\<lambda>p. \<not> lifetime p \<le> 0)
                                (map (decay ?R delta) (namePopups s))"
      and sc: "scene s' = (scene s \<union> set (map (\<lambda>t. mesh_id (mesh t)) (arrivals delta s)))
                       - passed_ids ?R delta (targets s @ arrivals delta s)
                       - expired_ids ?R delta (namePopups s)"
    using update_fields [of delta s] by blast
  have n: "targets s' ! i = advanceTarget ?R delta (fl ?R (gameTime s + delta)) (targets s ! i)"
    unfolding t using assms(1) by (rule nth_advanced)
  have ps: "passed ?R delta (targets s ! i)" using assms(2,3) by (simp add: passed_def)
  have r: "targets s' ! i = retired (moved ?R delta (fl ?R (gameTime s + delta)) (targets s ! i))"
    using ps assms(2) by (simp add: n advanceTarget_def)
  have id: "mesh_id (mesh (targets s' ! i)) = mesh_id (mesh (targets s ! i))"
    by (simp add: r retired_def moved_def)
  have z: "vz (position (mesh (targets s' ! i)))
          = fl ?R (vz (position (mesh (targets s ! i)))
                   + fl ?R (vz (velocity (targets s ! i)) * delta))"
    by (simp add: r retired_def moved_def add_def multiplyScalar_def)
  have "mesh_id (mesh (targets s ! i)) \<in> passed_ids ?R delta (targets s @ arrivals delta s)"
    using assms(1) ps by (rule passed_ids_mem)
  then have out: "mesh_id (mesh (targets s' ! i)) \<notin> scene s'" by (simp add: id sc)
  have dead: "\<not> alive (targets s' ! i)" "material_disposed (mesh (targets s' ! i))"
    by (simp_all add: r retired_def moved_def)
  have le: "length (namePopups s') \<le> length (namePopups s)"
    unfolding p using length_filter_le [of _ "map (decay ?R delta) (namePopups s)"] by simp
  have pd: "passed ?R delta
      = (\<lambda>t. alive t \<and> fl ?R (vz (position (mesh t)) + fl ?R (vz (velocity t) * delta)) > 5)"
    by (rule ext) (simp add: passed_def)
  have cnt: "\<not> (fl ?R (spawnTimer s + delta) \<ge> spawnInterval s
             \<and> playerIndex s < length (players s)) \<longrightarrow>
           length (getAliveTargets s')
             + length (filter (\<lambda>t. alive t
                                 \<and> fl ?R (vz (position (mesh t))
                                          + fl ?R (vz (velocity t) * delta)) > 5)
                         (targets s))
           = length (getAliveTargets s)"
    using count_alive_advance [of ?R delta "fl ?R (gameTime s + delta)" "targets s"]
    unfolding pd by (auto simp add: getAliveTargets_def t arrivals_def spawning_def)
  show ?thesis using u z dead id out p le cnt by blast
qed

theorem update_retires_passed_target_witness:
  "\<exists>s'. update 1 (pool_with [alice] [live_target 0 alice (Vector3 0 0 4.875) (Vector3 0 0 20)])
           = Inr s'
      \<and> length (getAliveTargets
           (pool_with [alice] [live_target 0 alice (Vector3 0 0 4.875) (Vector3 0 0 20)])) = 1
      \<and> vz (position (mesh (targets s' ! 0))) = 24.875
      \<and> length (getAliveTargets s') = 0
      \<and> namePopups s' = []
      \<and> 0 \<notin> scene s'"
proof -
  let ?P = "pool_with [alice] [live_target 0 alice (Vector3 0 0 4.875) (Vector3 0 0 20)]"
  have e: "fl (runtime ?P) = (\<lambda>x. x)"
    by (simp add: pool_with_def new_PlayerTargets_def exact_runtime_def)
  have f: "0 < length (targets ?P)" "alive (targets ?P ! 0)"
      "fl (runtime ?P) (vz (position (mesh (targets ?P ! 0)))
                        + fl (runtime ?P) (vz (velocity (targets ?P ! 0)) * 1)) > 5"
    unfolding e by (simp_all add: pool_with_def new_PlayerTargets_def live_target_def)
  have g: "length (getAliveTargets ?P) = 1" "namePopups ?P = []"
      "mesh_id (mesh (targets ?P ! 0)) = 0"
      "\<not> ((spawnTimer ?P + 1) \<ge> spawnInterval ?P \<and> playerIndex ?P < length (players ?P))"
      "length (filter (\<lambda>t. alive t \<and> vz (position (mesh t)) + vz (velocity t) * 1 > 5)
                         (targets ?P)) = 1"
      "vz (position (mesh (targets ?P ! 0))) + vz (velocity (targets ?P ! 0)) * 1 = 199 / 8"
    by (simp_all add: getAliveTargets_def pool_with_def new_PlayerTargets_def live_target_def)
  from update_retires_passed_target [OF f] g show ?thesis unfolding e by auto
qed

text \<open>
  Claim C9. \<open>update\<close> always returns, never with an exception; with the cursor at the end of
  the player list it creates no target and leaves the cursor. Scenario, in every environment
  and every runtime in which 0.5 is a number: after \<open>setPlayers\<close> with three players and
  \<open>start\<close>, with the interval 0.5 of the constructor, three calls \<open>update(0.5)\<close> create
  exactly three targets and bring the cursor to 3, and a fourth call creates none.
\<close>

theorem update_exhaustion_stops_spawning:
  "(\<exists>s'. update delta s = Inr s'
       \<and> (length (players s) \<le> playerIndex s \<longrightarrow>
            length (targets s') = length (targets s) \<and> playerIndex s' = playerIndex s
          \<and> nextId s' = nextId s))
   \<and> (fl R (1 / 2) = 1 / 2 \<longrightarrow>
       (\<exists>s3 s4. advances [0.5, 0.5, 0.5]
                  (start (setPlayers [p1, p2, p3] (new_PlayerTargets sc n rnd R))) = Inr s3
         \<and> length (targets s3) = 3 \<and> playerIndex s3 = 3 \<and> length (players s3) = 3
         \<and> update 0.5 s3 = Inr s4
         \<and> length (targets s4) = 3 \<and> playerIndex s4 = 3))"
proof -
  have stop: "\<exists>s'. update delta s = Inr s'
       \<and> (length (players s) \<le> playerIndex s \<longrightarrow>
            length (targets s') = length (targets s) \<and> playerIndex s' = playerIndex s
          \<and> nextId s' = nextId s)" for delta s
  proof (cases "length (players s) \<le> playerIndex s")
    case False
    then show ?thesis using update_fields [of delta s] by blast
  next
    case True
    then have ns: "\<not> spawning delta s" by (simp add: spawning_def)
    have "update delta s = Inr (after_loops delta
             (s\<lparr>gameTime := fl (runtime s) (gameTime s + delta),
                spawnTimer := fl (runtime s) (spawnTimer s + delta)\<rparr>))"
      using ns by (simp add: update_unfold)
    then show ?thesis by (simp add: after_loops_def)
  qed
  have scenario: "\<exists>s3 s4. advances [0.5, 0.5, 0.5]
                  (start (setPlayers [p1, p2, p3] (new_PlayerTargets sc n rnd R))) = Inr s3
         \<and> length (targets s3) = 3 \<and> playerIndex s3 = 3 \<and> length (players s3) = 3
         \<and> update 0.5 s3 = Inr s4
         \<and> length (targets s4) = 3 \<and> playerIndex s4 = 3" if half: "fl R (1 / 2) = 1 / 2"
  proof -
    let ?s0 = "start (setPlayers [p1, p2, p3] (new_PlayerTargets sc n rnd R))"
    obtain m pd rq where s0: "?s0 = (new_PlayerTargets sc n rnd R)
        \<lparr>players := [p1, p2, p3], targets := [], namePopups := [], playerIndex := 0,
         spawnTimer := 0, gameTime := 0, nextId := m, pending := pd, requests := rq\<rparr>"
      using start_setPlayers by blast
    have f0: "players ?s0 = [p1, p2, p3]" "targets ?s0 = []" "playerIndex ?s0 = 0"
        "spawnTimer ?s0 = 0" "spawnInterval ?s0 = 1 / 2" "runtime ?s0 = R"
      unfolding s0 by (simp_all add: new_PlayerTargets_def)
    have c: "crossings (runtime ?s0) (spawnInterval ?s0) (spawnTimer ?s0) [0.5, 0.5, 0.5] = 3"
      unfolding f0 by (simp add: half)
    have "playerIndex ?s0
          + crossings (runtime ?s0) (spawnInterval ?s0) (spawnTimer ?s0) [0.5, 0.5, 0.5]
      \<le> length (players ?s0)"
      unfolding c by (simp add: f0)
    from advances_spawns [OF this]
    obtain s3 where s3: "advances [0.5, 0.5, 0.5] ?s0 = Inr s3" "players s3 = players ?s0"
        "length (targets s3) = 3" "playerIndex s3 = 3"
      unfolding c by (auto simp add: f0)
    have l3: "length (players s3) = 3" using s3(2) by (simp add: f0)
    from stop [of "0.5" s3] obtain s4 where "update 0.5 s3 = Inr s4"
        "length (targets s4) = 3" "playerIndex s4 = 3"
      using s3 l3 by auto
    then show ?thesis using s3 l3 by blast
  qed
  show ?thesis using stop [of delta s] scenario by blast
qed

theorem update_exhaustion_stops_spawning_witness:
  "(\<exists>s'. update 0.5 (pool_with [alice] [live_target 0 alice (Vector3 0 0 (- 100)) (Vector3 0 0 20)])
           = Inr s'
       \<and> length (targets s') = 1 \<and> playerIndex s' = 1 \<and> nextId s' = 1)
   \<and> (\<exists>s3 s4. advances [0.5, 0.5, 0.5]
                  (start (setPlayers [alice, bob, carol]
                     (new_PlayerTargets {} 0 (\<lambda>n. 0) exact_runtime))) = Inr s3
         \<and> length (targets s3) = 3 \<and> playerIndex s3 = 3 \<and> length (players s3) = 3
         \<and> update 0.5 s3 = Inr s4
         \<and> length (targets s4) = 3 \<and> playerIndex s4 = 3)"
proof -
  let ?P = "pool_with [alice] [live_target 0 alice (Vector3 0 0 (- 100)) (Vector3 0 0 20)]"
  have f: "length (players ?P) \<le> playerIndex ?P" "length (targets ?P) = 1" "playerIndex ?P = 1"
      "nextId ?P = 1"
    by (simp_all add: pool_with_def new_PlayerTargets_def)
  have a: "\<exists>s'. update 0.5 ?P = Inr s'
       \<and> length (targets s') = 1 \<and> playerIndex s' = 1 \<and> nextId s' = 1"
    using update_exhaustion_stops_spawning [where delta = "0.5" and s = ?P, THEN conjunct1] f
    by auto
  have h: "fl exact_runtime (1 / 2) = 1 / 2" by (simp add: exact_runtime_def)
  have b: "\<exists>s3 s4. advances [0.5, 0.5, 0.5]
                  (start (setPlayers [alice, bob, carol]
                     (new_PlayerTargets {} 0 (\<lambda>n. 0) exact_runtime))) = Inr s3
         \<and> length (targets s3) = 3 \<and> playerIndex s3 = 3 \<and> length (players s3) = 3
         \<and> update 0.5 s3 = Inr s4
         \<and> length (targets s4) = 3 \<and> playerIndex s4 = 3"
    using update_exhaustion_stops_spawning [where R = exact_runtime and ?p1.0 = alice
        and ?p2.0 = bob and ?p3.0 = carol and sc = "{}" and n = 0 and rnd = "\<lambda>n. 0",
        THEN conjunct2] h
    by blast
  show ?thesis using a b by blast
qed

end
